theory Spec2Isabelle
  imports Main "HOL-Library.Word"
begin

unbundle bit_operations_syntax

section \<open>The Ultra protocol loader of Hyper (loader/protocols/ultra.c)\<close>

text \<open>
  The loader is modelled for the i686 BIOS build, the default \<^verbatim>\<open>HYPER_ARCH\<close> of
  CMakeLists.txt: \<^verbatim>\<open>size_t\<close>, \<^verbatim>\<open>ptr_t\<close> and data pointers are 32 bits wide,
  \<^verbatim>\<open>u64\<close> is 64 bits wide, and all unsigned arithmetic wraps around.
\<close>

type_synonym u16 = "16 word"
type_synonym u32 = "32 word"
type_synonym u64 = "64 word"
type_synonym size_t = "32 word"
type_synonym ptr_t = "32 word"

subsection \<open>Fatal errors\<close>

text \<open>
  \<^verbatim>\<open>oops\<close> and \<^verbatim>\<open>panic\<close> (common/panic.c) log and then spin in \<^verbatim>\<open>for (;;);\<close>:
  the loader halts. \<^verbatim>\<open>BUG_ON\<close> halts in the same way. A halt is the left summand of
  the result of every function that can reach one.
\<close>

datatype fatal = Oops string | Bug string

subsection \<open>Memory-map entries\<close>

text \<open>
  \<^verbatim>\<open>ultra_protocol.h\<close> and the declaration of \<^verbatim>\<open>struct memory_map_entry\<close> are not among
  the sources. Both entry types carry the three fields that the conversion touches; the
  type field is an unsigned 64-bit integer on both sides, so that the assignment copies it
  without conversion. The numeric values of the protocol's memory types are parameters.
\<close>

record memory_map_entry =
  physical_address :: u64
  size_in_bytes :: u64
  type :: u64

record ultra_memory_map_entry =
  physical_address :: u64
  size_in_bytes :: u64
  type :: u64

record ultra_memory_types =
  ULTRA_MEMORY_TYPE_RESERVED :: u64
  ULTRA_MEMORY_TYPE_NVS :: u64
  ULTRA_MEMORY_TYPE_LOADER_RECLAIMABLE :: u64
  ULTRA_MEMORY_TYPE_MODULE :: u64
  ULTRA_MEMORY_TYPE_KERNEL_STACK :: u64
  ULTRA_MEMORY_TYPE_KERNEL_BINARY :: u64

definition ultra_memory_map_entry_convert ::
  "ultra_memory_types \<Rightarrow> memory_map_entry \<Rightarrow> ultra_memory_map_entry" where
  "ultra_memory_map_entry_convert mt entry =
     \<lparr> ultra_memory_map_entry.physical_address = memory_map_entry.physical_address entry,
       ultra_memory_map_entry.size_in_bytes = memory_map_entry.size_in_bytes entry,
       ultra_memory_map_entry.type =
         (if memory_map_entry.type entry \<le> ULTRA_MEMORY_TYPE_NVS mt
             \<or> memory_map_entry.type entry \<ge> ULTRA_MEMORY_TYPE_LOADER_RECLAIMABLE mt
          then memory_map_entry.type entry
          else ULTRA_MEMORY_TYPE_RESERVED mt) \<rparr>"

subsection \<open>Video-mode selection\<close>

datatype video_mode_constraint =
  VIDEO_MODE_CONSTRAINT_EXACTLY | VIDEO_MODE_CONSTRAINT_AT_LEAST

text \<open>
  \<^verbatim>\<open>struct video_mode\<close> and \<^verbatim>\<open>struct resolution\<close> are declared in a header that is not
  among the sources; they carry the fields that \<^verbatim>\<open>set_video_mode\<close> reads. A field whose C name is
  that of a constant of HOL (\<open>id\<close>, \<open>size\<close>, \<open>length\<close>) carries a prime.
\<close>

record video_mode =
  width :: u32
  height :: u32
  bpp :: u32
  id' :: u32

record resolution =
  width :: u32
  height :: u32

record requested_video_mode =
  width :: u32
  height :: u32
  bpp :: u32
  constraint :: video_mode_constraint
  none :: bool

definition VM_EQUALS :: "video_mode \<Rightarrow> requested_video_mode \<Rightarrow> bool" where
  "VM_EQUALS l r \<longleftrightarrow>
     video_mode.width l = requested_video_mode.width r
     \<and> video_mode.height l = requested_video_mode.height r
     \<and> video_mode.bpp l = requested_video_mode.bpp r"

definition VM_GREATER_OR_EQUAL :: "video_mode \<Rightarrow> requested_video_mode \<Rightarrow> bool" where
  "VM_GREATER_OR_EQUAL l r \<longleftrightarrow>
     video_mode.width l \<ge> requested_video_mode.width r
     \<and> video_mode.height l \<ge> requested_video_mode.height r
     \<and> video_mode.bpp l \<ge> requested_video_mode.bpp r"

definition VM_LESS_OR_EQUAL :: "video_mode \<Rightarrow> resolution \<Rightarrow> bool" where
  "VM_LESS_OR_EQUAL l r \<longleftrightarrow>
     video_mode.width l \<le> resolution.width r
     \<and> video_mode.height l \<le> resolution.height r"

text \<open>
  The loop of \<^verbatim>\<open>set_video_mode\<close> over the enumerated modes (lines 219 to 232). The pair
  \<^verbatim>\<open>(picked_vm, did_pick)\<close> is an option: \<open>None\<close> while \<^verbatim>\<open>did_pick\<close> is false. The
  first equation with a true condition is the \<^verbatim>\<open>break\<close>.
\<close>

fun pick_loop ::
  "requested_video_mode \<Rightarrow> resolution \<Rightarrow> video_mode list \<Rightarrow> video_mode option
     \<Rightarrow> video_mode option" where
  "pick_loop rm native_res [] picked = picked"
| "pick_loop rm native_res (m # mode_list) picked =
     (if constraint rm = VIDEO_MODE_CONSTRAINT_EXACTLY \<and> VM_EQUALS m rm then Some m
      else if VM_GREATER_OR_EQUAL m rm \<and> VM_LESS_OR_EQUAL m native_res
        then pick_loop rm native_res mode_list (Some m)
        else pick_loop rm native_res mode_list picked)"

text \<open>The loop followed by the check of \<^verbatim>\<open>did_pick\<close> (lines 219 to 237).\<close>

definition pick_video_mode ::
  "requested_video_mode \<Rightarrow> resolution \<Rightarrow> video_mode list \<Rightarrow> fatal + video_mode" where
  "pick_video_mode rm native_res mode_list =
     (case pick_loop rm native_res mode_list None of
        None \<Rightarrow> Inl (Oops ''failed to pick a video mode according to constraints'')
      | Some picked_vm \<Rightarrow> Inr picked_vm)"

subsection \<open>Constants of absent headers\<close>

text \<open>
  \<^verbatim>\<open>common/constants.h\<close> and \<^verbatim>\<open>ultra_protocol.h\<close> are not among the sources. The
  macros and structure sizes that \<^verbatim>\<open>ultra.c\<close> takes from them are parameters of the
  model, collected in one record. A \<^verbatim>\<open>sizeof\<close> has type \<^verbatim>\<open>size_t\<close>.
\<close>

record constants =
  PAGE_SIZE :: size_t
  HUGE_PAGE_SIZE :: u64
  DIRECT_MAP_BASE :: u64
  HIGHER_HALF_BASE :: u64
  ULTRA_MAGIC :: u32
  memory_types :: ultra_memory_types
  sizeof_ultra_attribute_header :: size_t
  sizeof_ultra_platform_info_attribute :: size_t
  sizeof_ultra_kernel_info_attribute :: size_t
  sizeof_ultra_module_info_attribute :: size_t
  sizeof_ultra_command_line_attribute :: size_t
  sizeof_ultra_framebuffer_attribute :: size_t
  sizeof_ultra_memory_map_attribute :: size_t
  sizeof_ultra_memory_map_entry :: size_t
  sizeof_name :: nat
  sizeof_path_on_disk :: nat

text \<open>\<^verbatim>\<open>KB\<close>, \<^verbatim>\<open>MB\<close> and \<^verbatim>\<open>GB\<close> of Conversions.h, of type \<^verbatim>\<open>unsigned long\<close>.\<close>

definition KB :: u32 where "KB = 1024"
definition MB :: u32 where "MB = 1024 * KB"
definition GB :: u32 where "GB = 1024 * MB"

text \<open>
  \<^verbatim>\<open>CEILING_DIVIDE(x, y)\<close> of helpers.h is \<^verbatim>\<open>(!!(x) + (((x) - !!(x)) / (y)))\<close>, computed
  in the unsigned type of \<open>x\<close>.
\<close>

definition CEILING_DIVIDE :: "'a::len word \<Rightarrow> 'a word \<Rightarrow> 'a word" where
  "CEILING_DIVIDE x y = (if x \<noteq> 0 then 1 else 0) + ((x - (if x \<noteq> 0 then 1 else 0)) div y)"

subsection \<open>The configuration store (config.h)\<close>

text \<open>
  \<^verbatim>\<open>enum value_type\<close> is a set of bit flags; \<^verbatim>\<open>struct value\<close> stores it in a
  \<^verbatim>\<open>u16\<close>.
\<close>

definition VALUE_NONE :: u16 where "VALUE_NONE = 1"
definition VALUE_BOOLEAN :: u16 where "VALUE_BOOLEAN = 2"
definition VALUE_UNSIGNED :: u16 where "VALUE_UNSIGNED = 4"
definition VALUE_SIGNED :: u16 where "VALUE_SIGNED = 8"
definition VALUE_STRING :: u16 where "VALUE_STRING = 16"
definition VALUE_OBJECT :: u16 where "VALUE_OBJECT = 32"
definition VALUE_ANY :: u16 where "VALUE_ANY = 64"

text \<open>
  \<^verbatim>\<open>struct value\<close>. The members of the anonymous union are separate fields; only the one
  that the type selects is meaningful. \<^verbatim>\<open>as_signed\<close> holds the bits of the \<^verbatim>\<open>i64\<close>.
\<close>

record config_value =
  type :: u16
  cfg_off :: u16
  as_bool :: bool
  as_unsigned :: u64
  as_signed :: u64
  as_string :: string

record loadable_entry =
  name :: string
  cfg_off :: size_t

definition value_is_null :: "config_value \<Rightarrow> bool" where
  "value_is_null val \<longleftrightarrow> config_value.type val = VALUE_NONE"

definition value_is_string :: "config_value \<Rightarrow> bool" where
  "value_is_string val \<longleftrightarrow> config_value.type val = VALUE_STRING"

definition value_is_object :: "config_value \<Rightarrow> bool" where
  "value_is_object val \<longleftrightarrow> config_value.type val = VALUE_OBJECT"

text \<open>
  Modelled from the spec: the lookup functions that config.h declares
  (\<^verbatim>\<open>_cfg_get_one_of\<close>, \<^verbatim>\<open>_cfg_get_string\<close>, \<^verbatim>\<open>_cfg_get_unsigned\<close>,
  \<^verbatim>\<open>_cfg_get_signed\<close>, \<^verbatim>\<open>_cfg_get_bool\<close>, \<^verbatim>\<open>cfg_get_next_one_of\<close>) are defined in
  config.c, which is not among the sources. The store is taken as its scopes: each scope
  is denoted by an offset (0 for the global scope, the \<^verbatim>\<open>cfg_off\<close> of a loadable entry
  or of an object value) and holds its key/value pairs in source order; the
  \<^verbatim>\<open>cfg_off\<close> of a value identifies its entry. A lookup with \<^verbatim>\<open>must_be_unique\<close>
  halts on a second entry with the key; a lookup halts when the entry found has a type
  outside the mask; absence is the result \<open>None\<close> (the C functions return false). The C
  names that begin with an underscore carry the prefix \<open>raw\<close> here.
\<close>

type_synonym config = "(nat \<times> (string \<times> config_value) list) list"

definition scope_entries :: "config \<Rightarrow> nat \<Rightarrow> (string \<times> config_value) list" where
  "scope_entries cfg off = (case map_of cfg off of None \<Rightarrow> [] | Some es \<Rightarrow> es)"

definition cfg_find :: "config \<Rightarrow> size_t \<Rightarrow> string \<Rightarrow> config_value list" where
  "cfg_find cfg offset key =
     map snd (filter (\<lambda>e. fst e = key) (scope_entries cfg (unat offset)))"

definition raw_cfg_get_one_of ::
  "config \<Rightarrow> size_t \<Rightarrow> bool \<Rightarrow> string \<Rightarrow> u16 \<Rightarrow> fatal + config_value option" where
  "raw_cfg_get_one_of cfg offset must_be_unique key type_mask =
     (case cfg_find cfg offset key of
        [] \<Rightarrow> Inr None
      | val # others \<Rightarrow>
          if must_be_unique \<and> others \<noteq> [] then Inl (Oops ''key is not unique'')
          else if config_value.type val AND type_mask = 0 then Inl (Oops ''unexpected type'')
          else Inr (Some val))"

definition raw_cfg_get_bool ::
  "config \<Rightarrow> size_t \<Rightarrow> bool \<Rightarrow> string \<Rightarrow> fatal + bool option" where
  "raw_cfg_get_bool cfg offset must_be_unique key =
     map_sum (\<lambda>e. e) (map_option as_bool)
       (raw_cfg_get_one_of cfg offset must_be_unique key VALUE_BOOLEAN)"

definition raw_cfg_get_unsigned ::
  "config \<Rightarrow> size_t \<Rightarrow> bool \<Rightarrow> string \<Rightarrow> fatal + u64 option" where
  "raw_cfg_get_unsigned cfg offset must_be_unique key =
     map_sum (\<lambda>e. e) (map_option as_unsigned)
       (raw_cfg_get_one_of cfg offset must_be_unique key VALUE_UNSIGNED)"

definition raw_cfg_get_signed ::
  "config \<Rightarrow> size_t \<Rightarrow> bool \<Rightarrow> string \<Rightarrow> fatal + int option" where
  "raw_cfg_get_signed cfg offset must_be_unique key =
     map_sum (\<lambda>e. e) (map_option (\<lambda>val. sint (as_signed val)))
       (raw_cfg_get_one_of cfg offset must_be_unique key VALUE_SIGNED)"

definition raw_cfg_get_string ::
  "config \<Rightarrow> size_t \<Rightarrow> bool \<Rightarrow> string \<Rightarrow> fatal + string option" where
  "raw_cfg_get_string cfg offset must_be_unique key =
     map_sum (\<lambda>e. e) (map_option as_string)
       (raw_cfg_get_one_of cfg offset must_be_unique key VALUE_STRING)"

text \<open>
  \<^verbatim>\<open>cfg_get_next_one_of\<close>: the next sibling, after the entry of \<open>val\<close>, with the key of
  that entry. With \<^verbatim>\<open>oops_on_non_matching_type\<close> a sibling of a type outside the mask
  halts; without it such a sibling is passed over.
\<close>

fun siblings_after ::
  "u16 \<Rightarrow> (string \<times> config_value) list \<Rightarrow> (string \<times> (string \<times> config_value) list) option" where
  "siblings_after off [] = None"
| "siblings_after off ((key, val) # es) =
     (if config_value.cfg_off val = off then Some (key, es) else siblings_after off es)"

fun find_entry ::
  "u16 \<Rightarrow> config \<Rightarrow> (string \<times> (string \<times> config_value) list) option" where
  "find_entry off [] = None"
| "find_entry off ((scope, es) # cfg) =
     (case siblings_after off es of None \<Rightarrow> find_entry off cfg | Some r \<Rightarrow> Some r)"

fun next_one_of ::
  "string \<Rightarrow> u16 \<Rightarrow> bool \<Rightarrow> (string \<times> config_value) list \<Rightarrow> fatal + config_value option" where
  "next_one_of key type_mask strict [] = Inr None"
| "next_one_of key type_mask strict ((key', val) # es) =
     (if key' \<noteq> key then next_one_of key type_mask strict es
      else if config_value.type val AND type_mask \<noteq> 0 then Inr (Some val)
      else if strict then Inl (Oops ''unexpected type'')
      else next_one_of key type_mask strict es)"

definition cfg_get_next_one_of ::
  "config \<Rightarrow> u16 \<Rightarrow> config_value \<Rightarrow> bool \<Rightarrow> fatal + config_value option" where
  "cfg_get_next_one_of cfg type_mask val oops_on_non_matching_type =
     (case find_entry (config_value.cfg_off val) cfg of
        None \<Rightarrow> Inr None
      | Some (key, es) \<Rightarrow> next_one_of key type_mask oops_on_non_matching_type es)"

text \<open>
  The lookup macros of config.h. A macro takes \<open>obj\<close>, a loadable entry or a value, and
  passes \<^verbatim>\<open>(obj)->cfg_off\<close>; here the caller passes that offset.
\<close>

definition cfg_get_bool :: "config \<Rightarrow> size_t \<Rightarrow> string \<Rightarrow> fatal + bool option" where
  "cfg_get_bool cfg obj_cfg_off key = raw_cfg_get_bool cfg obj_cfg_off True key"

definition cfg_get_signed :: "config \<Rightarrow> size_t \<Rightarrow> string \<Rightarrow> fatal + int option" where
  "cfg_get_signed cfg obj_cfg_off key = raw_cfg_get_signed cfg obj_cfg_off True key"

definition cfg_get_unsigned :: "config \<Rightarrow> size_t \<Rightarrow> string \<Rightarrow> fatal + u64 option" where
  "cfg_get_unsigned cfg obj_cfg_off key = raw_cfg_get_unsigned cfg obj_cfg_off True key"

definition cfg_get_string :: "config \<Rightarrow> size_t \<Rightarrow> string \<Rightarrow> fatal + string option" where
  "cfg_get_string cfg obj_cfg_off key = raw_cfg_get_string cfg obj_cfg_off True key"

definition cfg_get_one_of ::
  "config \<Rightarrow> size_t \<Rightarrow> string \<Rightarrow> u16 \<Rightarrow> fatal + config_value option" where
  "cfg_get_one_of cfg obj_cfg_off key type_mask =
     raw_cfg_get_one_of cfg obj_cfg_off True key type_mask"

definition cfg_get_first_one_of ::
  "config \<Rightarrow> size_t \<Rightarrow> string \<Rightarrow> u16 \<Rightarrow> fatal + config_value option" where
  "cfg_get_first_one_of cfg obj_cfg_off key type_mask =
     raw_cfg_get_one_of cfg obj_cfg_off False key type_mask"

definition cfg_get_global_bool :: "config \<Rightarrow> string \<Rightarrow> fatal + bool option" where
  "cfg_get_global_bool cfg key = raw_cfg_get_bool cfg 0 True key"

definition cfg_get_global_signed :: "config \<Rightarrow> string \<Rightarrow> fatal + u64 option" where
  "cfg_get_global_signed cfg key = raw_cfg_get_unsigned cfg 0 True key"

definition cfg_get_global_unsigned :: "config \<Rightarrow> string \<Rightarrow> fatal + int option" where
  "cfg_get_global_unsigned cfg key = raw_cfg_get_signed cfg 0 True key"

definition cfg_get_global_string :: "config \<Rightarrow> string \<Rightarrow> fatal + string option" where
  "cfg_get_global_string cfg key = raw_cfg_get_string cfg 0 True key"

text \<open>
  \<^verbatim>\<open>CFG_MANDATORY_GET\<close> and \<^verbatim>\<open>CFG_MANDATORY_GET_ONE_OF\<close>: the lookup, and \<^verbatim>\<open>oops\<close>
  when it returns false.
\<close>

definition mandatory :: "fatal + 'a option \<Rightarrow> fatal + 'a" where
  "mandatory r =
     (case r of
        Inl e \<Rightarrow> Inl e
      | Inr None \<Rightarrow> Inl (Oops ''couldn't find mandatory key in the config file!'')
      | Inr (Some x) \<Rightarrow> Inr x)"

definition CFG_MANDATORY_GET_string :: "config \<Rightarrow> size_t \<Rightarrow> string \<Rightarrow> fatal + string" where
  "CFG_MANDATORY_GET_string cfg obj_cfg_off key =
     mandatory (raw_cfg_get_string cfg obj_cfg_off True key)"

definition CFG_MANDATORY_GET_ONE_OF ::
  "u16 \<Rightarrow> config \<Rightarrow> size_t \<Rightarrow> string \<Rightarrow> fatal + config_value" where
  "CFG_MANDATORY_GET_ONE_OF type_mask cfg obj_cfg_off key =
     mandatory (raw_cfg_get_one_of cfg obj_cfg_off True key type_mask)"

subsection \<open>Data of the loader\<close>

type_synonym u8 = "8 word"

record full_path =
  disk_guid :: "u8 list"
  partition_guid :: "u8 list"
  partition_id_type :: u32
  partition_index :: u32
  path_within_partition :: string

text \<open>
  An open file: its size, and \<^verbatim>\<open>read(file, buf, offset, len)\<close>, which returns the bytes
  it stores in \<open>buf\<close>, or \<open>None\<close> where the C function returns false.
\<close>

record "file" =
  size' :: u64
  read :: "u64 \<Rightarrow> u64 \<Rightarrow> u8 list option"

text \<open>\<^verbatim>\<open>fse->fs->open(fse->fs, path)\<close>; \<open>None\<close> is the null pointer.\<close>

record fs_entry =
  "open" :: "string \<Rightarrow> file option"

record binary_info =
  physical_base :: u64
  physical_ceiling :: u64
  virtual_base :: u64
  entrypoint_address :: u64
  bitness :: u8
  kernel_range_is_direct_map :: bool

record load_result =
  info :: binary_info
  error_msg :: string

text \<open>
  \<^verbatim>\<open>struct ultra_framebuffer\<close>: \<^verbatim>\<open>ultra.c\<close> reads and writes the physical address only;
  the other members are copied as they are.
\<close>

record ultra_framebuffer =
  physical_address :: u64
  descriptor :: "u32 list"

subsection \<open>Structures of the protocol and of the loader\<close>

datatype ultra_attribute_type =
    ULTRA_ATTRIBUTE_PLATFORM_INFO
  | ULTRA_ATTRIBUTE_KERNEL_INFO
  | ULTRA_ATTRIBUTE_MODULE_INFO
  | ULTRA_ATTRIBUTE_COMMAND_LINE
  | ULTRA_ATTRIBUTE_FRAMEBUFFER_INFO
  | ULTRA_ATTRIBUTE_MEMORY_MAP

datatype ultra_platform_type = ULTRA_PLATFORM_BIOS | ULTRA_PLATFORM_UEFI

record ultra_attribute_header =
  type :: ultra_attribute_type
  size_in_bytes :: u32

text \<open>
  The attribute structures. A character array holds a C string: the characters before the
  first null character.
\<close>

record ultra_platform_info_attribute =
  header :: ultra_attribute_header
  platform_type :: ultra_platform_type
  loader_major :: u16
  loader_minor :: u16
  acpi_rsdp_address :: u64
  loader_name :: string

record ultra_kernel_info_attribute =
  header :: ultra_attribute_header
  physical_base :: u64
  virtual_base :: u64
  range_length :: u64
  partition_type :: u32
  partition_index :: u32
  disk_guid :: "u8 list"
  partition_guid :: "u8 list"
  path_on_disk :: string

record ultra_module_info_attribute =
  header :: ultra_attribute_header
  name :: string
  physical_address :: u64
  length' :: u64

record ultra_command_line_attribute =
  header :: ultra_attribute_header
  text' :: string

record ultra_framebuffer_attribute =
  header :: ultra_attribute_header
  fb :: ultra_framebuffer

record ultra_memory_map_attribute =
  header :: ultra_attribute_header
  entries :: "ultra_memory_map_entry list"

datatype attribute =
    Platform_info ultra_platform_info_attribute
  | Kernel_info ultra_kernel_info_attribute
  | Module_info ultra_module_info_attribute
  | Command_line ultra_command_line_attribute
  | Framebuffer_info ultra_framebuffer_attribute
  | Memory_map ultra_memory_map_attribute

record binary_options =
  path :: full_path
  allocate_anywhere :: bool

record kernel_info =
  bin_opts :: binary_options
  bin_info :: binary_info

text \<open>
  \<^verbatim>\<open>struct attribute_array_spec\<close>. \<open>modules\<close> is the pointer, \<open>modules_array\<close> the
  array that it points to. The command line is a string view: its size is the length of
  the string.
\<close>

record attribute_array_spec =
  fb_present :: bool
  cmdline_present :: bool
  fb :: ultra_framebuffer
  cmdline :: string
  kern_info :: kernel_info
  modules :: ptr_t
  modules_array :: "ultra_module_info_attribute list"
  module_count :: size_t
  stack_address :: u64
  acpi_rsdp_address :: ptr_t

record handover_info =
  memory_map_handover_key :: size_t
  attribute_array_address :: u64

definition LOAD_NAME_STRING :: string where
  "LOAD_NAME_STRING = ''HyperLoader v0.1''"

subsection \<open>The loader's surroundings\<close>

text \<open>
  \<^verbatim>\<open>ultra.c\<close> reaches the firmware through \<^verbatim>\<open>struct services\<close> and its tables of
  function pointers, and the rest of the loader (allocator, virtual memory, filesystem
  table, ELF loader) through functions whose definitions are not among the sources. All of
  them are parameters: functions on a firmware state of an arbitrary type \<open>'fw\<close>, which
  stands for everything outside \<^verbatim>\<open>ultra.c\<close> that a call can read or change (the memory
  map above all). The contents of memory are not modelled, except for the structures that
  \<^verbatim>\<open>ultra.c\<close> itself fills in.
\<close>

text \<open>
  The memory services. \<^verbatim>\<open>copy_map(buf, capacity, elem_size, &key, convert)\<close> gets
  whether \<open>buf\<close> is non-null, the capacity and the element size; it returns the entry
  count, the key it stores, and the entries that it hands to \<open>convert\<close> for storing in
  \<open>buf\<close>.
\<close>

record 'fw memory_services =
  copy_map :: "bool \<Rightarrow> size_t \<Rightarrow> size_t \<Rightarrow> 'fw
                 \<Rightarrow> (size_t \<times> size_t \<times> memory_map_entry list) \<times> 'fw"
  handover :: "size_t \<Rightarrow> 'fw \<Rightarrow> bool \<times> 'fw"

text \<open>
  The video services. \<^verbatim>\<open>query_resolution\<close> gets the resolution that the caller has
  initialised and returns what it leaves there; \<^verbatim>\<open>set_mode\<close> returns the framebuffer
  that it stores, or \<open>None\<close> for false.
\<close>

record 'fw video_services =
  query_resolution :: "resolution \<Rightarrow> 'fw \<Rightarrow> resolution"
  list_modes :: "'fw \<Rightarrow> video_mode list"
  set_mode :: "u32 \<Rightarrow> 'fw \<Rightarrow> ultra_framebuffer option \<times> 'fw"

datatype service_provider = SERVICE_PROVIDER_BIOS | SERVICE_PROVIDER_UEFI

record 'fw services =
  provider :: service_provider
  ms :: "'fw memory_services"
  vs :: "'fw video_services"
  get_rsdp :: "'fw \<Rightarrow> ptr_t"

text \<open>
  The functions of the loader that \<^verbatim>\<open>ultra.c\<close> calls and whose definitions are absent. A
  critical allocation that fails halts inside the allocator: its result is \<open>None\<close>. So does
  a critical mapping. \<open>uninitialised p i\<close> is what the freshly allocated memory at \<open>p\<close>
  holds where the module structure of index \<open>i\<close> will be: nothing is known about it.
  \<open>memcpy_leading n s d\<close> is the module structure that a place holds after \<^verbatim>\<open>memcpy\<close> has
  copied the first \<open>n\<close> bytes of the structure \<open>s\<close> over the structure \<open>d\<close> that was there,
  for \<open>n\<close> greater than zero and less than the size of the structure: which fields these
  bytes are depends on the layout that \<^verbatim>\<open>ultra_protocol.h\<close> declares.
\<close>

record 'fw environment =
  do_allocate_critical_bytes :: "size_t \<Rightarrow> 'fw \<Rightarrow> (ptr_t \<times> 'fw) option"
  do_allocate_critical_pages :: "size_t \<Rightarrow> 'fw \<Rightarrow> (ptr_t \<times> 'fw) option"
  do_allocate_critical_pages_with_type :: "size_t \<Rightarrow> u64 \<Rightarrow> 'fw \<Rightarrow> (ptr_t \<times> 'fw) option"
  do_allocate_critical_pages_with_type_at :: "u64 \<Rightarrow> size_t \<Rightarrow> u64 \<Rightarrow> 'fw \<Rightarrow> 'fw option"
  do_free_bytes :: "ptr_t \<Rightarrow> size_t \<Rightarrow> 'fw \<Rightarrow> 'fw"
  do_free_pages :: "ptr_t \<Rightarrow> size_t \<Rightarrow> 'fw \<Rightarrow> 'fw"
  do_map_critical_pages :: "ptr_t \<Rightarrow> u64 \<Rightarrow> u64 \<Rightarrow> size_t \<Rightarrow> 'fw \<Rightarrow> 'fw option"
  do_map_critical_huge_pages :: "ptr_t \<Rightarrow> u64 \<Rightarrow> u64 \<Rightarrow> size_t \<Rightarrow> 'fw \<Rightarrow> 'fw option"
  parse_path :: "string \<Rightarrow> full_path option"
  fs_by_full_path :: "full_path \<Rightarrow> fs_entry option"
  elf_bitness :: "u8 list \<Rightarrow> u64 \<Rightarrow> u8"
  do_elf_load :: "u8 list \<Rightarrow> u64 \<Rightarrow> bool \<Rightarrow> bool \<Rightarrow> u64 \<Rightarrow> 'fw \<Rightarrow> (bool \<times> load_result) \<times> 'fw"
  cpu_supports_long_mode :: bool
  uninitialised :: "ptr_t \<Rightarrow> nat \<Rightarrow> ultra_module_info_attribute"
  memcpy_leading :: "nat \<Rightarrow> ultra_module_info_attribute \<Rightarrow> ultra_module_info_attribute
                       \<Rightarrow> ultra_module_info_attribute"

subsection \<open>State and events\<close>

text \<open>
  Every call that allocates, frees, maps or clears memory, that reads the memory map, or
  that goes to the firmware or to the kernel, is recorded in order of execution.
\<close>

datatype event =
    Allocate_critical_bytes size_t ptr_t
  | Allocate_critical_pages size_t ptr_t
  | Allocate_critical_pages_with_type size_t u64 ptr_t
  | Allocate_critical_pages_with_type_at u64 size_t u64
  | Free_bytes ptr_t size_t
  | Free_pages ptr_t size_t
  | Memzero ptr_t size_t
  | Map_critical_pages u64 u64 size_t
  | Map_critical_huge_pages u64 u64 size_t
  | Elf_load
  | Copy_map bool size_t size_t
  | Set_mode u32
  | Handover size_t
  | Kernel_handover32 u64 u64 u32 u32
  | Kernel_handover64 u64 u64 u64 u64 u32

text \<open>
  The state: the firmware state, the events so far, and the \<^verbatim>\<open>static int module_idx\<close>
  of \<^verbatim>\<open>module_load\<close>.
\<close>

record 'fw world =
  fw :: 'fw
  trace :: "event list"
  module_idx :: int

definition record_event :: "event \<Rightarrow> 'fw world \<Rightarrow> 'fw world" where
  "record_event e w = w\<lparr>trace := trace w @ [e]\<rparr>"

definition and_then :: "fatal + 'a \<Rightarrow> ('a \<Rightarrow> fatal + 'b) \<Rightarrow> fatal + 'b" where
  "and_then m f = (case m of Inl e \<Rightarrow> Inl e | Inr x \<Rightarrow> f x)"

definition allocate_critical_bytes ::
  "'fw environment \<Rightarrow> size_t \<Rightarrow> 'fw world \<Rightarrow> fatal + ptr_t \<times> 'fw world" where
  "allocate_critical_bytes env count w =
     (case do_allocate_critical_bytes env count (fw w) of
        None \<Rightarrow> Inl (Oops ''critical allocation failed'')
      | Some (p, f) \<Rightarrow> Inr (p, record_event (Allocate_critical_bytes count p) (w\<lparr>fw := f\<rparr>)))"

definition allocate_critical_pages ::
  "'fw environment \<Rightarrow> size_t \<Rightarrow> 'fw world \<Rightarrow> fatal + ptr_t \<times> 'fw world" where
  "allocate_critical_pages env count w =
     (case do_allocate_critical_pages env count (fw w) of
        None \<Rightarrow> Inl (Oops ''critical allocation failed'')
      | Some (p, f) \<Rightarrow> Inr (p, record_event (Allocate_critical_pages count p) (w\<lparr>fw := f\<rparr>)))"

definition allocate_critical_pages_with_type ::
  "'fw environment \<Rightarrow> size_t \<Rightarrow> u64 \<Rightarrow> 'fw world \<Rightarrow> fatal + ptr_t \<times> 'fw world" where
  "allocate_critical_pages_with_type env count ty w =
     (case do_allocate_critical_pages_with_type env count ty (fw w) of
        None \<Rightarrow> Inl (Oops ''critical allocation failed'')
      | Some (p, f) \<Rightarrow>
          Inr (p, record_event (Allocate_critical_pages_with_type count ty p) (w\<lparr>fw := f\<rparr>)))"

definition allocate_critical_pages_with_type_at ::
  "'fw environment \<Rightarrow> u64 \<Rightarrow> size_t \<Rightarrow> u64 \<Rightarrow> 'fw world \<Rightarrow> fatal + 'fw world" where
  "allocate_critical_pages_with_type_at env address count ty w =
     (case do_allocate_critical_pages_with_type_at env address count ty (fw w) of
        None \<Rightarrow> Inl (Oops ''critical allocation failed'')
      | Some f \<Rightarrow>
          Inr (record_event (Allocate_critical_pages_with_type_at address count ty) (w\<lparr>fw := f\<rparr>)))"

definition free_bytes :: "'fw environment \<Rightarrow> ptr_t \<Rightarrow> size_t \<Rightarrow> 'fw world \<Rightarrow> 'fw world" where
  "free_bytes env p count w =
     record_event (Free_bytes p count) (w\<lparr>fw := do_free_bytes env p count (fw w)\<rparr>)"

definition free_pages :: "'fw environment \<Rightarrow> ptr_t \<Rightarrow> size_t \<Rightarrow> 'fw world \<Rightarrow> 'fw world" where
  "free_pages env p count w =
     record_event (Free_pages p count) (w\<lparr>fw := do_free_pages env p count (fw w)\<rparr>)"

definition memzero :: "ptr_t \<Rightarrow> size_t \<Rightarrow> 'fw world \<Rightarrow> 'fw world" where
  "memzero p count w = record_event (Memzero p count) w"

definition map_critical_pages ::
  "'fw environment \<Rightarrow> ptr_t \<Rightarrow> u64 \<Rightarrow> u64 \<Rightarrow> size_t \<Rightarrow> 'fw world \<Rightarrow> fatal + 'fw world" where
  "map_critical_pages env root virt phys pages w =
     (case do_map_critical_pages env root virt phys pages (fw w) of
        None \<Rightarrow> Inl (Oops ''critical mapping failed'')
      | Some f \<Rightarrow> Inr (record_event (Map_critical_pages virt phys pages) (w\<lparr>fw := f\<rparr>)))"

definition map_critical_huge_pages ::
  "'fw environment \<Rightarrow> ptr_t \<Rightarrow> u64 \<Rightarrow> u64 \<Rightarrow> size_t \<Rightarrow> 'fw world \<Rightarrow> fatal + 'fw world" where
  "map_critical_huge_pages env root virt phys pages w =
     (case do_map_critical_huge_pages env root virt phys pages (fw w) of
        None \<Rightarrow> Inl (Oops ''critical mapping failed'')
      | Some f \<Rightarrow> Inr (record_event (Map_critical_huge_pages virt phys pages) (w\<lparr>fw := f\<rparr>)))"

subsection \<open>Loading the kernel and the modules\<close>

definition get_binary_options ::
  "'fw environment \<Rightarrow> config \<Rightarrow> loadable_entry \<Rightarrow> binary_options \<Rightarrow> fatal + binary_options" where
  "get_binary_options env cfg le opts =
     and_then (CFG_MANDATORY_GET_ONE_OF (VALUE_STRING OR VALUE_OBJECT) cfg
                 (loadable_entry.cfg_off le) ''binary'') (\<lambda>binary_val.
     and_then
       (if value_is_object binary_val then
          and_then (CFG_MANDATORY_GET_string cfg (ucast (config_value.cfg_off binary_val))
                      ''path'') (\<lambda>string_path.
          and_then (cfg_get_bool cfg (ucast (config_value.cfg_off binary_val))
                      ''allocate-anywhere'') (\<lambda>anywhere.
          Inr (string_path,
               case anywhere of None \<Rightarrow> opts | Some b \<Rightarrow> opts\<lparr>allocate_anywhere := b\<rparr>)))
        else Inr (as_string binary_val, opts)) (\<lambda>(string_path, opts).
     case parse_path env string_path of
       None \<Rightarrow> Inl (Oops ''invalid binary path'')
     | Some p \<Rightarrow> Inr (opts\<lparr>path := p\<rparr>)))"

text \<open>
  \<^verbatim>\<open>snprintf(attrs->name, sizeof(attrs->name), "unnamed_module%d", module_idx)\<close>: the
  decimal digits of the index after the prefix, cut to the size of the array less the
  terminator.
\<close>

fun decimal :: "nat \<Rightarrow> string" where
  "decimal n = (if n < 10 then [''0123456789'' ! n]
                else decimal (n div 10) @ [''0123456789'' ! (n mod 10)])"

declare decimal.simps [simp del]

definition format_d :: "int \<Rightarrow> string" where
  "format_d i = (if i < 0 then CHR ''-'' # decimal (nat (- i)) else decimal (nat i))"

definition snprintf_unnamed_module :: "nat \<Rightarrow> int \<Rightarrow> string" where
  "snprintf_unnamed_module n idx = take (n - 1) (''unnamed_module'' @ format_d idx)"

text \<open>
  \<^verbatim>\<open>module_load\<close>. \<open>attrs\<close> is what the slot of the module array holds on entry. The
  assignment of the compound literal at the end (line 80) stores every member of the
  structure: the header, the address and the length as given, and zero in the members
  that the literal does not name, so the name becomes the empty string.
\<close>

definition module_load ::
  "constants \<Rightarrow> 'fw environment \<Rightarrow> config \<Rightarrow> config_value \<Rightarrow> ultra_module_info_attribute
     \<Rightarrow> 'fw world \<Rightarrow> fatal + ultra_module_info_attribute \<times> 'fw world" where
  "module_load k env cfg module_value attrs w0 =
     (let w = w0\<lparr>module_idx := module_idx w0 + 1\<rparr> in
      and_then
        (if value_is_object module_value then
           and_then (cfg_get_string cfg (ucast (config_value.cfg_off module_value))
                       ''name'') (\<lambda>found_name.
           and_then (CFG_MANDATORY_GET_string cfg (ucast (config_value.cfg_off module_value))
                       ''path'') (\<lambda>str_path.
           Inr (case found_name of None \<Rightarrow> [] | Some n \<Rightarrow> n, str_path)))
         else Inr ([], as_string module_value)) (\<lambda>(module_name, str_path).
      let attrs = (if module_name = []
                   then attrs\<lparr>name := snprintf_unnamed_module (sizeof_name k) (module_idx w)\<rparr>
                   else attrs) in
      case parse_path env str_path of
        None \<Rightarrow> Inl (Oops ''invalid module path'')
      | Some module_path \<Rightarrow>
     (case fs_by_full_path env module_path of
        None \<Rightarrow> Inl (Oops ''invalid module path'')
      | Some fse \<Rightarrow>
     (case open fse (path_within_partition module_path) of
        None \<Rightarrow> Inl (Oops ''invalid module path'')
      | Some module_file \<Rightarrow>
      let file_pages = (ucast (CEILING_DIVIDE (size' module_file) (ucast (PAGE_SIZE k))) :: size_t) in
      and_then (allocate_critical_pages_with_type env file_pages
                  (ULTRA_MEMORY_TYPE_MODULE (memory_types k)) w) (\<lambda>(module_data, w).
      case read module_file 0 (size' module_file) of
        None \<Rightarrow> Inl (Oops ''failed to read module file'')
      | Some data \<Rightarrow>
          Inr (attrs\<lparr> ultra_module_info_attribute.header :=
                        \<lparr> ultra_attribute_header.type = ULTRA_ATTRIBUTE_MODULE_INFO,
                          size_in_bytes = sizeof_ultra_module_info_attribute k \<rparr>,
                      name := [],
                      ultra_module_info_attribute.physical_address := ucast module_data,
                      length' := size' module_file \<rparr>, w))))))"

text \<open>
  \<^verbatim>\<open>load_kernel\<close>. The result of \<^verbatim>\<open>fs_by_full_path\<close> is dereferenced without a check
  (line 105); a null pointer there is an error of its own kind.
\<close>

definition load_kernel ::
  "constants \<Rightarrow> 'fw environment \<Rightarrow> config \<Rightarrow> loadable_entry \<Rightarrow> kernel_info \<Rightarrow> 'fw world
     \<Rightarrow> fatal + kernel_info \<times> 'fw world" where
  "load_kernel k env cfg entry info0 w =
     and_then (get_binary_options env cfg entry (bin_opts info0)) (\<lambda>opts.
     case fs_by_full_path env (path opts) of
       None \<Rightarrow> Inl (Bug ''null pointer dereferenced'')
     | Some fse \<Rightarrow>
    (case open fse (path_within_partition (path opts)) of
       None \<Rightarrow> Inl (Oops ''failed to open'')
     | Some f \<Rightarrow>
     and_then (allocate_critical_bytes env (ucast (size' f)) w) (\<lambda>(file_data, w).
     case read f 0 (size' f) of
       None \<Rightarrow> Inl (Oops ''failed to read file'')
     | Some data \<Rightarrow>
     let bitness = elf_bitness env data (size' f) in
     if bitness = 0 \<or> (bitness \<noteq> 32 \<and> bitness \<noteq> 64) then Inl (Oops ''invalid ELF bitness'')
     else if allocate_anywhere opts \<and> bitness \<noteq> 64
       then Inl (Oops ''allocate-anywhere is only allowed for 64 bit kernels'')
     else if bitness = 64 \<and> \<not> cpu_supports_long_mode env
       then Inl (Oops ''attempted to load a 64 bit kernel on a CPU without long mode support'')
     else
       case do_elf_load env data (size' f) (bitness = 64) (allocate_anywhere opts)
              (ULTRA_MEMORY_TYPE_KERNEL_BINARY (memory_types k)) (fw w) of
         ((ok, res), f') \<Rightarrow>
           if \<not> ok then Inl (Oops ''failed to load kernel binary'')
           else Inr (\<lparr> bin_opts = opts, bin_info = info res \<rparr>,
                     record_event Elf_load (w\<lparr>fw := f'\<rparr>)))))"

subsection \<open>The video mode\<close>

definition video_mode_from_value ::
  "config \<Rightarrow> config_value \<Rightarrow> requested_video_mode \<Rightarrow> fatal + requested_video_mode" where
  "video_mode_from_value cfg val mode =
     (if value_is_null val then Inr (mode\<lparr>none := True\<rparr>)
      else if value_is_string val then
        if as_string val = ''unset'' then Inr (mode\<lparr>none := True\<rparr>)
        else if as_string val \<noteq> ''auto'' then Inl (Oops ''invalid value for video-mode'')
        else Inr mode
      else
        and_then (cfg_get_unsigned cfg (ucast (config_value.cfg_off val)) ''width'') (\<lambda>cfg_width.
        let mode = (case cfg_width of None \<Rightarrow> mode
                    | Some n \<Rightarrow> mode\<lparr>requested_video_mode.width := ucast n\<rparr>) in
        and_then (cfg_get_unsigned cfg (ucast (config_value.cfg_off val)) ''height'') (\<lambda>cfg_height.
        let mode = (case cfg_height of None \<Rightarrow> mode
                    | Some n \<Rightarrow> mode\<lparr>requested_video_mode.height := ucast n\<rparr>) in
        and_then (cfg_get_unsigned cfg (ucast (config_value.cfg_off val)) ''bpp'') (\<lambda>cfg_bpp.
        let mode = (case cfg_bpp of None \<Rightarrow> mode
                    | Some n \<Rightarrow> mode\<lparr>requested_video_mode.bpp := ucast n\<rparr>) in
        and_then (cfg_get_string cfg (ucast (config_value.cfg_off val)) ''constraint'')
          (\<lambda>constraint_str.
        case constraint_str of
          None \<Rightarrow> Inr mode
        | Some str \<Rightarrow>
            if str = ''at-least'' then Inr (mode\<lparr>constraint := VIDEO_MODE_CONSTRAINT_AT_LEAST\<rparr>)
            else if str = ''exactly'' then Inr (mode\<lparr>constraint := VIDEO_MODE_CONSTRAINT_EXACTLY\<rparr>)
            else Inl (Oops ''invalid video mode constraint''))))))"

definition DEFAULT_WIDTH :: u32 where "DEFAULT_WIDTH = 1024"
definition DEFAULT_HEIGHT :: u32 where "DEFAULT_HEIGHT = 768"
definition DEFAULT_BPP :: u32 where "DEFAULT_BPP = 32"

text \<open>
  \<^verbatim>\<open>set_video_mode\<close>. The result is the returned flag with the framebuffer that
  \<open>out_fb\<close> points to afterwards.
\<close>

definition set_video_mode ::
  "config \<Rightarrow> loadable_entry \<Rightarrow> 'fw video_services \<Rightarrow> ultra_framebuffer \<Rightarrow> 'fw world
     \<Rightarrow> fatal + (bool \<times> ultra_framebuffer) \<times> 'fw world" where
  "set_video_mode cfg entry video out_fb w =
     (let native_res = \<lparr> resolution.width = DEFAULT_WIDTH, resolution.height = DEFAULT_HEIGHT \<rparr>;
          rm = \<lparr> requested_video_mode.width = DEFAULT_WIDTH,
                 requested_video_mode.height = DEFAULT_HEIGHT,
                 requested_video_mode.bpp = DEFAULT_BPP,
                 constraint = VIDEO_MODE_CONSTRAINT_AT_LEAST, none = False \<rparr> in
      and_then (cfg_get_one_of cfg (loadable_entry.cfg_off entry) ''video-mode''
                  (VALUE_OBJECT OR VALUE_STRING OR VALUE_NONE)) (\<lambda>video_mode_val.
      and_then (case video_mode_val of
                  None \<Rightarrow> Inr rm
                | Some val \<Rightarrow> video_mode_from_value cfg val rm) (\<lambda>rm.
      if none rm then Inr ((False, out_fb), w)
      else
        let native_res = query_resolution video native_res (fw w);
            mode_list = list_modes video (fw w) in
        and_then (pick_video_mode rm native_res mode_list) (\<lambda>picked_vm.
        case set_mode video (id' picked_vm) (fw w) of
          (None, f) \<Rightarrow> Inl (Oops ''failed to set picked video mode'')
        | (Some new_fb, f) \<Rightarrow>
            Inr ((True, new_fb), record_event (Set_mode (id' picked_vm)) (w\<lparr>fw := f\<rparr>))))))"

subsection \<open>The page table\<close>

text \<open>
  \<^verbatim>\<open>build_page_table\<close>. \<^verbatim>\<open>4ull * GB\<close> is a 64-bit product; the page counts are passed
  as \<^verbatim>\<open>size_t\<close>.
\<close>

definition build_page_table ::
  "constants \<Rightarrow> 'fw environment \<Rightarrow> binary_info \<Rightarrow> 'fw world \<Rightarrow> fatal + u64 \<times> 'fw world" where
  "build_page_table k env bi w =
     (if bitness bi \<noteq> 64 then Inr (0, w)
      else
        and_then (allocate_critical_pages env 1 w) (\<lambda>(root, w).
        let w = memzero root (PAGE_SIZE k) w in
        and_then (map_critical_huge_pages env root 0 0
                    (ucast ((4 * ucast GB) div HUGE_PAGE_SIZE k)) w) (\<lambda>w.
        and_then (map_critical_huge_pages env root (DIRECT_MAP_BASE k) 0
                    (ucast ((4 * ucast GB) div HUGE_PAGE_SIZE k)) w) (\<lambda>w.
        and_then
          (if \<not> kernel_range_is_direct_map bi then
             let pages = (ucast (physical_ceiling bi - binary_info.physical_base bi) :: size_t);
                 pages = CEILING_DIVIDE pages (PAGE_SIZE k) in
             map_critical_pages env root (binary_info.virtual_base bi)
               (binary_info.physical_base bi) pages w
           else
             map_critical_huge_pages env root (HIGHER_HALF_BASE k) 0
               (ucast ((2 * ucast GB) div HUGE_PAGE_SIZE k)) w) (\<lambda>w.
        Inr (ucast root, w))))))"

subsection \<open>The kernel stack\<close>

text \<open>
  \<^verbatim>\<open>pick_stack\<close>. Both sub-keys are looked up with \<^verbatim>\<open>le\<close>, the loadable entry, as the
  scope (lines 473 and 474), and both lookups run before either value is examined.
\<close>

definition pick_stack ::
  "constants \<Rightarrow> 'fw environment \<Rightarrow> config \<Rightarrow> loadable_entry \<Rightarrow> 'fw world
     \<Rightarrow> fatal + u64 \<times> 'fw world" where
  "pick_stack k env cfg le w =
     and_then (cfg_get_one_of cfg (loadable_entry.cfg_off le) ''stack''
                 (VALUE_STRING OR VALUE_OBJECT)) (\<lambda>val.
     and_then
       (case val of
          None \<Rightarrow> Inr (0, 16 * KB)
        | Some val \<Rightarrow>
            if value_is_object val then
              and_then (cfg_get_one_of cfg (loadable_entry.cfg_off le) ''allocate-at''
                          (VALUE_STRING OR VALUE_UNSIGNED)) (\<lambda>alloc_at_val.
              and_then (cfg_get_one_of cfg (loadable_entry.cfg_off le) ''size''
                          (VALUE_STRING OR VALUE_UNSIGNED)) (\<lambda>size_val.
              and_then
                (case alloc_at_val of
                   None \<Rightarrow> Inr 0
                 | Some alloc_at_val \<Rightarrow>
                     if value_is_string alloc_at_val then
                       if as_string alloc_at_val \<noteq> ''anywhere''
                       then Inl (Oops ''invalid value for allocate-at'')
                       else Inr 0
                     else Inr (as_unsigned alloc_at_val)) (\<lambda>address.
              and_then
                (case size_val of
                   None \<Rightarrow> Inr (16 * KB)
                 | Some size_val \<Rightarrow>
                     if value_is_string size_val then
                       if as_string size_val \<noteq> ''auto''
                       then Inl (Oops ''invalid value for size'')
                       else Inr (16 * KB)
                     else Inr (ucast (as_unsigned size_val))) (\<lambda>size.
              Inr (address, size)))))
            else if as_string val \<noteq> ''auto''
              then Inl (Oops ''invalid value for stack'')
              else Inr (0, 16 * KB)) (\<lambda>(address :: u64, size :: size_t).
     let pages = CEILING_DIVIDE size (PAGE_SIZE k) in
     and_then
       (if address \<noteq> 0 then
          and_then (allocate_critical_pages_with_type_at env address pages
                      (ULTRA_MEMORY_TYPE_KERNEL_STACK (memory_types k)) w) (\<lambda>w'.
          Inr (address, w'))
        else
          and_then (allocate_critical_pages_with_type env pages
                      (ULTRA_MEMORY_TYPE_KERNEL_STACK (memory_types k)) w) (\<lambda>(p, w').
          Inr (ucast p, w'))) (\<lambda>(address, w').
     Inr (address + ucast (pages * PAGE_SIZE k), w'))))"

subsection \<open>The attribute array\<close>

definition create_kernel_info_attribute ::
  "constants \<Rightarrow> kernel_info \<Rightarrow> fatal + ultra_kernel_info_attribute" where
  "create_kernel_info_attribute k ki =
     (let path_str = path_within_partition (path (bin_opts ki)) in
      if length path_str > sizeof_path_on_disk k - 1 then Inl (Bug ''path_str.size'')
      else Inr
        \<lparr> ultra_kernel_info_attribute.header =
            \<lparr> ultra_attribute_header.type = ULTRA_ATTRIBUTE_KERNEL_INFO,
              size_in_bytes = sizeof_ultra_kernel_info_attribute k \<rparr>,
          ultra_kernel_info_attribute.physical_base = binary_info.physical_base (bin_info ki),
          ultra_kernel_info_attribute.virtual_base = binary_info.virtual_base (bin_info ki),
          range_length = physical_ceiling (bin_info ki) - binary_info.physical_base (bin_info ki),
          partition_type = partition_id_type (path (bin_opts ki)),
          ultra_kernel_info_attribute.partition_index = full_path.partition_index (path (bin_opts ki)),
          ultra_kernel_info_attribute.disk_guid = full_path.disk_guid (path (bin_opts ki)),
          ultra_kernel_info_attribute.partition_guid = full_path.partition_guid (path (bin_opts ki)),
          path_on_disk = path_str \<rparr>)"

text \<open>Lines 319 to 326 of \<^verbatim>\<open>build_attribute_array\<close>: the \<^verbatim>\<open>u32\<close> local of that name.\<close>

definition cmdline_aligned_length :: "constants \<Rightarrow> attribute_array_spec \<Rightarrow> u32" where
  "cmdline_aligned_length k spec =
     (if cmdline_present spec then
        let len = 0 + sizeof_ultra_attribute_header k;
            len = len + (of_nat (length (cmdline spec)) + 1);
            remainder = len mod 8
        in if remainder \<noteq> 0 then len + (8 - remainder) else len
      else 0)"

text \<open>Lines 328 to 333: the \<^verbatim>\<open>size_t\<close> local of that name.\<close>

definition bytes_needed :: "constants \<Rightarrow> attribute_array_spec \<Rightarrow> size_t" where
  "bytes_needed k spec =
     0 + 8
     + sizeof_ultra_platform_info_attribute k
     + sizeof_ultra_kernel_info_attribute k
     + module_count spec * sizeof_ultra_module_info_attribute k
     + cmdline_aligned_length k spec
     + (if fb_present spec then 1 else 0) * sizeof_ultra_framebuffer_attribute k"

text \<open>
  The loop of lines 339 to 355. It has no exit but the \<^verbatim>\<open>break\<close>, so it may run for
  ever: the result \<open>None\<close>. Otherwise the result is the address stored in
  \<^verbatim>\<open>hi->attribute_array_address\<close>, with \<^verbatim>\<open>memory_map_reserved_size\<close>. The address is
  the pointer converted to \<^verbatim>\<open>u32\<close> and stored in a \<^verbatim>\<open>u64\<close>; it is converted to a
  pointer again for \<^verbatim>\<open>memzero\<close> and \<^verbatim>\<open>free_bytes\<close>.
\<close>

definition query_map_size :: "'fw memory_services \<Rightarrow> 'fw world \<Rightarrow> size_t \<times> 'fw world" where
  "query_map_size mem w =
     (case copy_map mem False 0 0 (fw w) of
        ((n, key, es), f) \<Rightarrow> (n, record_event (Copy_map False 0 0) (w\<lparr>fw := f\<rparr>)))"

partial_function (option) allocate_attribute_array ::
  "constants \<Rightarrow> 'fw environment \<Rightarrow> 'fw memory_services \<Rightarrow> size_t \<Rightarrow> 'fw world
     \<Rightarrow> (fatal + (u64 \<times> size_t) \<times> 'fw world) option" where
  "allocate_attribute_array k env mem needed w =
     (case query_map_size mem w of
        (n, w1) \<Rightarrow>
          let memory_map_reserved_size = n + 1;
              bytes_for_this_allocation =
                needed + memory_map_reserved_size * sizeof_ultra_memory_map_entry k
          in
          (case allocate_critical_bytes env bytes_for_this_allocation w1 of
             Inl e \<Rightarrow> Some (Inl e)
           | Inr (p, w2) \<Rightarrow>
               let address = (ucast (ucast p :: u32) :: u64) in
               (case query_map_size mem w2 of
                  (memory_map_size_new, w3) \<Rightarrow>
                    if memory_map_reserved_size \<ge> memory_map_size_new then
                      Some (Inr ((address, memory_map_reserved_size),
                                 memzero (ucast address) bytes_for_this_allocation w3))
                    else
                      allocate_attribute_array k env mem needed
                        (free_bytes env (ucast address) bytes_for_this_allocation w3))))"

declare allocate_attribute_array.simps [code]

text \<open>
  The attribute array as written: the count stored at \<^verbatim>\<open>attr_count\<close> and the records in
  the order of their stores, each with the value of \<^verbatim>\<open>attr_ptr\<close> at which it is stored.
\<close>

record attribute_array =
  attribute_count :: u32
  attributes :: "(ptr_t \<times> attribute) list"

text \<open>The module structures that \<^verbatim>\<open>memcpy\<close> stores from \<open>attr_ptr\<close> on.\<close>

definition module_records ::
  "ptr_t \<Rightarrow> size_t \<Rightarrow> ultra_module_info_attribute list \<Rightarrow> (ptr_t \<times> attribute) list" where
  "module_records attr_ptr sz mods =
     map (\<lambda>(i, m). (attr_ptr + of_nat i * sz, Module_info m)) (enumerate 0 mods)"

text \<open>
  Lines 357 to 423. \<^verbatim>\<open>memcpy\<close> reads \<^verbatim>\<open>module_count\<close> structures from the module
  array; reading past its end has no defined result.
\<close>

definition write_attribute_array ::
  "constants \<Rightarrow> attribute_array_spec \<Rightarrow> service_provider \<Rightarrow> 'fw memory_services
     \<Rightarrow> u64 \<Rightarrow> size_t \<Rightarrow> 'fw world \<Rightarrow> fatal + (attribute_array \<times> handover_info) \<times> 'fw world" where
  "write_attribute_array k spec sp mem address memory_map_reserved_size w =
     (let attr_ptr = (ucast address :: ptr_t);
          attr_ptr = attr_ptr + 4;
          attr_ptr = attr_ptr + 4;
          attr_count = (0 :: u32);
          platform = (attr_ptr, Platform_info
            \<lparr> ultra_platform_info_attribute.header =
                \<lparr> ultra_attribute_header.type = ULTRA_ATTRIBUTE_PLATFORM_INFO,
                  size_in_bytes = sizeof_ultra_platform_info_attribute k \<rparr>,
              platform_type = (if sp = SERVICE_PROVIDER_BIOS then ULTRA_PLATFORM_BIOS
                               else ULTRA_PLATFORM_UEFI),
              loader_major = 0,
              loader_minor = 1,
              ultra_platform_info_attribute.acpi_rsdp_address =
                ucast (attribute_array_spec.acpi_rsdp_address spec),
              loader_name = LOAD_NAME_STRING \<rparr>);
          attr_ptr = attr_ptr + sizeof_ultra_platform_info_attribute k;
          attr_count = attr_count + 1
      in
      and_then (create_kernel_info_attribute k (kern_info spec)) (\<lambda>kernel_attr.
      let kernel = (attr_ptr, Kernel_info kernel_attr);
          attr_ptr = attr_ptr + sizeof_ultra_kernel_info_attribute k;
          attr_count = attr_count + 1
      in
      if unat (module_count spec) > length (modules_array spec)
      then Inl (Bug ''read past the end of the module array'')
      else
      let bytes_for_modules = module_count spec * sizeof_ultra_module_info_attribute k;
          module_attrs =
            (if module_count spec \<noteq> 0
             then module_records attr_ptr (sizeof_ultra_module_info_attribute k)
                    (take (unat (module_count spec)) (modules_array spec))
             else []);
          attr_count = (if module_count spec \<noteq> 0 then attr_count + module_count spec
                        else attr_count);
          attr_ptr = (if module_count spec \<noteq> 0 then attr_ptr + bytes_for_modules
                      else attr_ptr);
          cmdline_attrs =
            (if cmdline_present spec
             then [(attr_ptr, Command_line
                     \<lparr> ultra_command_line_attribute.header =
                         \<lparr> ultra_attribute_header.type = ULTRA_ATTRIBUTE_COMMAND_LINE,
                           size_in_bytes = cmdline_aligned_length k spec \<rparr>,
                       text' = cmdline spec \<rparr>)]
             else []);
          attr_count = (if cmdline_present spec then attr_count + 1 else attr_count);
          attr_ptr = (if cmdline_present spec then attr_ptr + cmdline_aligned_length k spec
                      else attr_ptr);
          fb_attrs =
            (if fb_present spec
             then [(attr_ptr, Framebuffer_info
                     \<lparr> ultra_framebuffer_attribute.header =
                         \<lparr> ultra_attribute_header.type = ULTRA_ATTRIBUTE_FRAMEBUFFER_INFO,
                           size_in_bytes = sizeof_ultra_framebuffer_attribute k \<rparr>,
                       ultra_framebuffer_attribute.fb = attribute_array_spec.fb spec \<rparr>)]
             else []);
          attr_count = (if fb_present spec then attr_count + 1 else attr_count);
          attr_ptr = (if fb_present spec then attr_ptr + sizeof_ultra_framebuffer_attribute k
                      else attr_ptr);
          memory_map_header =
            \<lparr> ultra_attribute_header.type = ULTRA_ATTRIBUTE_MEMORY_MAP,
              size_in_bytes = memory_map_reserved_size * sizeof_ultra_memory_map_entry k
                              + sizeof_ultra_memory_map_attribute k \<rparr>;
          memory_map_ptr = attr_ptr;
          attr_ptr = attr_ptr + sizeof_ultra_attribute_header k;
          attr_count = attr_count + 1
      in
      case copy_map mem True memory_map_reserved_size (sizeof_ultra_memory_map_entry k) (fw w) of
        ((n, key, es), f) \<Rightarrow>
          Inr ((\<lparr> attribute_count = attr_count,
                  attributes = [platform, kernel] @ module_attrs @ cmdline_attrs @ fb_attrs
                    @ [(memory_map_ptr, Memory_map
                         \<lparr> ultra_memory_map_attribute.header = memory_map_header,
                           entries = map (ultra_memory_map_entry_convert (memory_types k)) es \<rparr>)] \<rparr>,
                \<lparr> memory_map_handover_key = key, attribute_array_address = address \<rparr>),
               record_event
                 (Copy_map True memory_map_reserved_size (sizeof_ultra_memory_map_entry k))
                 (w\<lparr>fw := f\<rparr>))))"

definition build_attribute_array ::
  "constants \<Rightarrow> 'fw environment \<Rightarrow> attribute_array_spec \<Rightarrow> service_provider
     \<Rightarrow> 'fw memory_services \<Rightarrow> 'fw world
     \<Rightarrow> (fatal + (attribute_array \<times> handover_info) \<times> 'fw world) option" where
  "build_attribute_array k env spec sp mem w =
     (case allocate_attribute_array k env mem (bytes_needed k spec) w of
        None \<Rightarrow> None
      | Some (Inl e) \<Rightarrow> Some (Inl e)
      | Some (Inr ((address, memory_map_reserved_size), w')) \<Rightarrow>
          Some (write_attribute_array k spec sp mem address memory_map_reserved_size w'))"

subsection \<open>The protocol\<close>

definition MODULES_PER_PAGE :: "constants \<Rightarrow> size_t" where
  "MODULES_PER_PAGE k = PAGE_SIZE k div sizeof_ultra_module_info_attribute k"

text \<open>
  The module array is a list of the structures that fit in the allocation, the contents
  of fresh memory being what \<open>uninitialised\<close> says.
\<close>

definition fresh_module_array ::
  "'fw environment \<Rightarrow> ptr_t \<Rightarrow> nat \<Rightarrow> ultra_module_info_attribute list" where
  "fresh_module_array env p slots = map (uninitialised env p) [0..<slots]"

text \<open>
  \<^verbatim>\<open>memcpy(dst, src, n)\<close> between two arrays of module structures of \<open>sz\<close> bytes each. It
  copies \<open>n\<close> bytes: a structure that lies wholly within the first \<open>n\<close> bytes is copied,
  the structure that these bytes end in gets its leading bytes only, and the structures
  beyond keep what they held.
\<close>

definition memcpy_modules ::
  "'fw environment \<Rightarrow> nat \<Rightarrow> ultra_module_info_attribute list \<Rightarrow> ultra_module_info_attribute list
     \<Rightarrow> nat \<Rightarrow> ultra_module_info_attribute list" where
  "memcpy_modules env sz dst src n =
     map (\<lambda>(i, d). if (i + 1) * sz \<le> n then src ! i
                    else if i * sz < n then memcpy_leading env (n - i * sz) (src ! i) d
                    else d)
       (enumerate 0 dst)"

text \<open>
  Lines 526 to 530, the growth of the module array. The allocation is of
  \<^verbatim>\<open>modules_capacity + MODULES_PER_PAGE\<close> pages, and the third argument of \<^verbatim>\<open>memcpy\<close> is
  \<^verbatim>\<open>modules_capacity\<close>, a number of structures, taken as a number of bytes. Bytes read
  past the end of the old array have no defined value. The number of pages freed is
  rounded down.
\<close>

definition grow_modules ::
  "constants \<Rightarrow> 'fw environment \<Rightarrow> attribute_array_spec \<Rightarrow> size_t \<Rightarrow> 'fw world
     \<Rightarrow> fatal + (attribute_array_spec \<times> size_t) \<times> 'fw world" where
  "grow_modules k env spec modules_capacity w =
     and_then (allocate_critical_pages env (modules_capacity + MODULES_PER_PAGE k) w)
       (\<lambda>(new_modules, w).
     let sz = unat (sizeof_ultra_module_info_attribute k);
         slots = unat (modules_capacity + MODULES_PER_PAGE k) * unat (PAGE_SIZE k) div sz
     in
     if unat modules_capacity > length (modules_array spec) * sz
     then Inl (Bug ''read past the end of the module array'')
     else
     let new_array = memcpy_modules env sz (fresh_module_array env new_modules slots)
                       (modules_array spec) (unat modules_capacity);
         w = free_pages env (modules spec)
               ((modules_capacity * sizeof_ultra_module_info_attribute k) div PAGE_SIZE k) w
     in Inr ((spec\<lparr>modules := new_modules, modules_array := new_array\<rparr>,
              modules_capacity + MODULES_PER_PAGE k), w))"

text \<open>The body of the \<^verbatim>\<open>do\<close> loop, lines 525 to 533.\<close>

definition load_module_step ::
  "constants \<Rightarrow> 'fw environment \<Rightarrow> config \<Rightarrow> config_value \<Rightarrow> attribute_array_spec \<times> size_t
     \<Rightarrow> 'fw world \<Rightarrow> fatal + (attribute_array_spec \<times> size_t) \<times> 'fw world" where
  "load_module_step k env cfg module_value st w =
     (case st of (spec, modules_capacity) \<Rightarrow>
      let spec = spec\<lparr>module_count := module_count spec + 1\<rparr> in
      and_then (if module_count spec = modules_capacity
                then grow_modules k env spec modules_capacity w
                else Inr ((spec, modules_capacity), w)) (\<lambda>((spec, modules_capacity), w).
      let idx = unat (module_count spec - 1) in
      if idx \<ge> length (modules_array spec)
      then Inl (Bug ''write past the end of the module array'')
      else
        and_then (module_load k env cfg module_value (modules_array spec ! idx) w)
          (\<lambda>(attrs, w).
        Inr ((spec\<lparr>modules_array := (modules_array spec)[idx := attrs]\<rparr>, modules_capacity),
             w))))"

text \<open>
  The \<^verbatim>\<open>do\<close> loop, lines 524 to 534. It ends when \<^verbatim>\<open>cfg_get_next_one_of\<close> finds no
  further module.
\<close>

partial_function (option) load_modules ::
  "constants \<Rightarrow> 'fw environment \<Rightarrow> config \<Rightarrow> config_value \<Rightarrow> attribute_array_spec \<times> size_t
     \<Rightarrow> 'fw world \<Rightarrow> (fatal + (attribute_array_spec \<times> size_t) \<times> 'fw world) option" where
  "load_modules k env cfg module_value st w =
     (case load_module_step k env cfg module_value st w of
        Inl e \<Rightarrow> Some (Inl e)
      | Inr (st', w') \<Rightarrow>
          (case cfg_get_next_one_of cfg (VALUE_STRING OR VALUE_OBJECT) module_value True of
             Inl e \<Rightarrow> Some (Inl e)
           | Inr None \<Rightarrow> Some (Inr (st', w'))
           | Inr (Some next_value) \<Rightarrow> load_modules k env cfg next_value st' w'))"

declare load_modules.simps [code]

text \<open>\<^verbatim>\<open>struct attribute_array_spec spec = { 0 }\<close>.\<close>

definition zero_framebuffer :: ultra_framebuffer where
  "zero_framebuffer = \<lparr> ultra_framebuffer.physical_address = 0, descriptor = [] \<rparr>"

definition zero_kernel_info :: kernel_info where
  "zero_kernel_info =
     \<lparr> bin_opts =
         \<lparr> path = \<lparr> full_path.disk_guid = [], full_path.partition_guid = [],
                    partition_id_type = 0, full_path.partition_index = 0,
                    path_within_partition = [] \<rparr>,
           allocate_anywhere = False \<rparr>,
       bin_info =
         \<lparr> binary_info.physical_base = 0, physical_ceiling = 0, binary_info.virtual_base = 0,
           entrypoint_address = 0, bitness = 0, kernel_range_is_direct_map = False \<rparr> \<rparr>"

definition zero_spec :: attribute_array_spec where
  "zero_spec =
     \<lparr> fb_present = False, cmdline_present = False, attribute_array_spec.fb = zero_framebuffer,
       cmdline = [], kern_info = zero_kernel_info, modules = 0, modules_array = [],
       module_count = 0, stack_address = 0, attribute_array_spec.acpi_rsdp_address = 0 \<rparr>"

text \<open>
  \<^verbatim>\<open>ultra_protocol_load\<close> in four parts. Lines 509 to 521: the first page of the module
  array, the kernel and the command line. The result is \<open>spec\<close> with
  \<^verbatim>\<open>is_higher_half_kernel\<close>.
\<close>

definition ultra_protocol_load_kernel ::
  "constants \<Rightarrow> 'fw environment \<Rightarrow> config \<Rightarrow> loadable_entry \<Rightarrow> 'fw world
     \<Rightarrow> fatal + (attribute_array_spec \<times> bool) \<times> 'fw world" where
  "ultra_protocol_load_kernel k env cfg le w =
     and_then (allocate_critical_pages env 1 w) (\<lambda>(p, w).
     let spec = zero_spec\<lparr> modules := p,
                  modules_array := fresh_module_array env p (unat (MODULES_PER_PAGE k)) \<rparr>
     in
     and_then (load_kernel k env cfg le (kern_info spec) w) (\<lambda>(ki, w).
     let spec = spec\<lparr>kern_info := ki\<rparr>;
         is_higher_half_kernel =
           (entrypoint_address (bin_info (kern_info spec)) \<ge> HIGHER_HALF_BASE k)
     in
     and_then (cfg_get_string cfg (loadable_entry.cfg_off le) ''cmdline'') (\<lambda>found_cmdline.
     Inr ((spec\<lparr> cmdline_present := (found_cmdline \<noteq> None),
                  cmdline := (case found_cmdline of None \<Rightarrow> cmdline spec
                              | Some str \<Rightarrow> str) \<rparr>,
           is_higher_half_kernel), w))))"

text \<open>Lines 523 to 535: the modules, with \<^verbatim>\<open>modules_capacity\<close>.\<close>

definition ultra_protocol_load_modules ::
  "constants \<Rightarrow> 'fw environment \<Rightarrow> config \<Rightarrow> loadable_entry \<Rightarrow> attribute_array_spec \<times> size_t
     \<Rightarrow> 'fw world \<Rightarrow> (fatal + (attribute_array_spec \<times> size_t) \<times> 'fw world) option" where
  "ultra_protocol_load_modules k env cfg le st w =
     (case cfg_get_first_one_of cfg (loadable_entry.cfg_off le) ''module''
             (VALUE_STRING OR VALUE_OBJECT) of
        Inl e \<Rightarrow> Some (Inl e)
      | Inr None \<Rightarrow> Some (Inr (st, w))
      | Inr (Some module_value) \<Rightarrow> load_modules k env cfg module_value st w)"

text \<open>
  Lines 537 to 545: the page table, the stack, the RSDP and the video mode. The result is
  \<open>spec\<close> with the page table \<open>pt\<close>.
\<close>

definition ultra_protocol_load_machine ::
  "constants \<Rightarrow> 'fw environment \<Rightarrow> config \<Rightarrow> loadable_entry \<Rightarrow> 'fw services
     \<Rightarrow> attribute_array_spec \<Rightarrow> 'fw world
     \<Rightarrow> fatal + (attribute_array_spec \<times> u64) \<times> 'fw world" where
  "ultra_protocol_load_machine k env cfg le sv spec w =
     and_then (build_page_table k env (bin_info (kern_info spec)) w) (\<lambda>(pt, w).
     and_then (pick_stack k env cfg le w) (\<lambda>(stack, w).
     let spec = spec\<lparr> stack_address := stack,
                       attribute_array_spec.acpi_rsdp_address := get_rsdp sv (fw w) \<rparr>
     in
     and_then (set_video_mode cfg le (vs sv) (attribute_array_spec.fb spec) w)
       (\<lambda>((present, new_fb), w).
     Inr ((spec\<lparr>fb_present := present, attribute_array_spec.fb := new_fb\<rparr>, pt), w))))"

text \<open>Lines 509 to 545 together: all that precedes the handover.\<close>

definition ultra_protocol_load_prepare ::
  "constants \<Rightarrow> 'fw environment \<Rightarrow> config \<Rightarrow> loadable_entry \<Rightarrow> 'fw services \<Rightarrow> 'fw world
     \<Rightarrow> (fatal + (attribute_array_spec \<times> u64 \<times> bool) \<times> 'fw world) option" where
  "ultra_protocol_load_prepare k env cfg le sv w =
     (case ultra_protocol_load_kernel k env cfg le w of
        Inl e \<Rightarrow> Some (Inl e)
      | Inr ((spec, is_higher_half_kernel), w) \<Rightarrow>
     (case ultra_protocol_load_modules k env cfg le (spec, MODULES_PER_PAGE k) w of
        None \<Rightarrow> None
      | Some (Inl e) \<Rightarrow> Some (Inl e)
      | Some (Inr ((spec, modules_capacity), w)) \<Rightarrow>
     (case ultra_protocol_load_machine k env cfg le sv spec w of
        Inl e \<Rightarrow> Some (Inl e)
      | Inr ((spec, pt), w) \<Rightarrow> Some (Inr ((spec, pt, is_higher_half_kernel), w)))))"

text \<open>
  Lines 546 to 572: the attribute array, the handover and the jump. \<^verbatim>\<open>kernel_handover32\<close> and \<^verbatim>\<open>kernel_handover64\<close> do not return. The result
  is the attribute array as built, with \<open>spec\<close> and \<open>hi\<close> as they are at the jump.
\<close>

definition ultra_protocol_load_handover ::
  "constants \<Rightarrow> 'fw environment \<Rightarrow> 'fw services \<Rightarrow> attribute_array_spec \<Rightarrow> u64 \<Rightarrow> bool
     \<Rightarrow> 'fw world
     \<Rightarrow> (fatal + (attribute_array \<times> attribute_array_spec \<times> handover_info) \<times> 'fw world) option"
  where
  "ultra_protocol_load_handover k env sv spec0 pt is_higher_half_kernel w =
     (let spec =
            (if is_higher_half_kernel
             then spec0\<lparr> attribute_array_spec.fb := (attribute_array_spec.fb spec0)
                          \<lparr> ultra_framebuffer.physical_address :=
                              ultra_framebuffer.physical_address (attribute_array_spec.fb spec0)
                              + DIRECT_MAP_BASE k \<rparr> \<rparr>
             else spec0)
      in
      case build_attribute_array k env spec (provider sv) (ms sv) w of
        None \<Rightarrow> None
      | Some (Inl e) \<Rightarrow> Some (Inl e)
      | Some (Inr ((arr, hi), w)) \<Rightarrow>
          Some
            (case handover (ms sv) (memory_map_handover_key hi) (fw w) of
               (handover_res, f) \<Rightarrow>
                 let w = record_event (Handover (memory_map_handover_key hi)) (w\<lparr>fw := f\<rparr>) in
                 if \<not> handover_res then Inl (Bug ''!handover_res'')
                 else
                   let spec = (if is_higher_half_kernel
                               then spec\<lparr>stack_address := stack_address spec + DIRECT_MAP_BASE k\<rparr>
                               else spec);
                       hi = (if is_higher_half_kernel
                             then hi\<lparr>attribute_array_address :=
                                       attribute_array_address hi + DIRECT_MAP_BASE k\<rparr>
                             else hi)
                   in
                   if bitness (bin_info (kern_info spec)) = 32 then
                     Inr ((arr, spec, hi),
                          record_event
                            (Kernel_handover32 (entrypoint_address (bin_info (kern_info spec)))
                               (stack_address spec) (ucast (attribute_array_address hi))
                               (ULTRA_MAGIC k)) w)
                   else
                     Inr ((arr, spec, hi),
                          record_event
                            (Kernel_handover64 (entrypoint_address (bin_info (kern_info spec)))
                               (stack_address spec) pt (attribute_array_address hi)
                               (ULTRA_MAGIC k)) w)))"

definition ultra_protocol_load ::
  "constants \<Rightarrow> 'fw environment \<Rightarrow> config \<Rightarrow> loadable_entry \<Rightarrow> 'fw services \<Rightarrow> 'fw world
     \<Rightarrow> (fatal + (attribute_array \<times> attribute_array_spec \<times> handover_info) \<times> 'fw world) option"
  where
  "ultra_protocol_load k env cfg le sv w =
     (case ultra_protocol_load_prepare k env cfg le sv w of
        None \<Rightarrow> None
      | Some (Inl e) \<Rightarrow> Some (Inl e)
      | Some (Inr ((spec, pt, is_higher_half_kernel), w')) \<Rightarrow>
          ultra_protocol_load_handover k env sv spec pt is_higher_half_kernel w')"

section \<open>A small firmware for concrete runs\<close>

text \<open>
  The theorems below hold for every firmware. To run the loader on concrete inputs, this
  section fixes one: constants of an x86 build, and a firmware whose state is a memory map,
  the next free address, and a number of pending splits. An allocation appends its region
  to the memory map; while a split is pending it also appends a second entry (a free
  region cut in two). Freeing removes the region.
\<close>

definition example_memory_types :: ultra_memory_types where
  "example_memory_types =
     \<lparr> ULTRA_MEMORY_TYPE_RESERVED = 2, ULTRA_MEMORY_TYPE_NVS = 4,
       ULTRA_MEMORY_TYPE_LOADER_RECLAIMABLE = 0xFFFF0000, ULTRA_MEMORY_TYPE_MODULE = 0xFFFF0001,
       ULTRA_MEMORY_TYPE_KERNEL_STACK = 0xFFFF0002, ULTRA_MEMORY_TYPE_KERNEL_BINARY = 0xFFFF0003 \<rparr>"

definition example_constants :: constants where
  "example_constants =
     \<lparr> PAGE_SIZE = 4096, HUGE_PAGE_SIZE = 0x200000,
       DIRECT_MAP_BASE = 0xFFFF800000000000, HIGHER_HALF_BASE = 0xFFFFFFFF80000000,
       ULTRA_MAGIC = 0x554C5442, memory_types = example_memory_types,
       sizeof_ultra_attribute_header = 8,
       sizeof_ultra_platform_info_attribute = 56,
       sizeof_ultra_kernel_info_attribute = 1080,
       sizeof_ultra_module_info_attribute = 88,
       sizeof_ultra_command_line_attribute = 8,
       sizeof_ultra_framebuffer_attribute = 40,
       sizeof_ultra_memory_map_attribute = 8,
       sizeof_ultra_memory_map_entry = 24,
       sizeof_name = 64, sizeof_path_on_disk = 256 \<rparr>"

record firmware =
  memory_map :: "memory_map_entry list"
  next_free :: ptr_t
  pending_splits :: nat

definition firmware_allocate :: "size_t \<Rightarrow> u64 \<Rightarrow> firmware \<Rightarrow> (ptr_t \<times> firmware) option" where
  "firmware_allocate pages ty f =
     Some (next_free f,
       f\<lparr> memory_map := memory_map f
              @ [\<lparr> memory_map_entry.physical_address = ucast (next_free f),
                    memory_map_entry.size_in_bytes = ucast (pages * 4096),
                    memory_map_entry.type = ty \<rparr>]
              @ (if pending_splits f = 0 then []
                 else [\<lparr> memory_map_entry.physical_address = ucast (next_free f + pages * 4096),
                         memory_map_entry.size_in_bytes = 4096,
                         memory_map_entry.type = 1 \<rparr>]),
          next_free := next_free f + pages * 4096
                       + (if pending_splits f = 0 then 0 else 4096),
          pending_splits := pending_splits f - 1 \<rparr>)"

definition firmware_allocate_at :: "u64 \<Rightarrow> size_t \<Rightarrow> u64 \<Rightarrow> firmware \<Rightarrow> firmware option" where
  "firmware_allocate_at address pages ty f =
     Some (f\<lparr> memory_map := memory_map f
               @ [\<lparr> memory_map_entry.physical_address = address,
                     memory_map_entry.size_in_bytes = ucast (pages * 4096),
                     memory_map_entry.type = ty \<rparr>] \<rparr>)"

definition firmware_free :: "ptr_t \<Rightarrow> firmware \<Rightarrow> firmware" where
  "firmware_free p f =
     f\<lparr> memory_map :=
          filter (\<lambda>e. memory_map_entry.physical_address e \<noteq> ucast p) (memory_map f) \<rparr>"

definition example_file :: "file" where
  "example_file = \<lparr> size' = 0x2000, read = (\<lambda>offset len. Some []) \<rparr>"

definition example_binary_info :: binary_info where
  "example_binary_info =
     \<lparr> binary_info.physical_base = 0x100000, physical_ceiling = 0x104000,
       binary_info.virtual_base = 0xFFFFFFFF80100000, entrypoint_address = 0xFFFFFFFF80100000,
       bitness = 64, kernel_range_is_direct_map = True \<rparr>"

text \<open>
  The module structure of this build has the header in its bytes 0 to 7 (the type, then
  the size), the name in 8 to 71, the physical address in 72 to 79 and the length in 80
  to 87; integers are little-endian, so that a type, whose value is below 256, is in the
  first byte; the bytes of a name array after the string are null.
\<close>

definition leading_bytes :: "nat \<Rightarrow> 'a::len word \<Rightarrow> 'a word \<Rightarrow> 'a word" where
  "leading_bytes n s d = (s AND mask (8 * n)) OR (d AND NOT (mask (8 * n)))"

definition example_memcpy_leading ::
  "nat \<Rightarrow> ultra_module_info_attribute \<Rightarrow> ultra_module_info_attribute
     \<Rightarrow> ultra_module_info_attribute" where
  "example_memcpy_leading n s d =
     \<lparr> ultra_module_info_attribute.header =
         \<lparr> ultra_attribute_header.type =
             (if n \<ge> 1 then ultra_attribute_header.type (ultra_module_info_attribute.header s)
              else ultra_attribute_header.type (ultra_module_info_attribute.header d)),
           size_in_bytes =
             leading_bytes (n - 4) (size_in_bytes (ultra_module_info_attribute.header s))
               (size_in_bytes (ultra_module_info_attribute.header d)) \<rparr>,
       name =
         (if n - 8 > length (name s) then name s
          else take (n - 8) (name s) @ drop (n - 8) (name d)),
       ultra_module_info_attribute.physical_address =
         leading_bytes (n - 72) (ultra_module_info_attribute.physical_address s)
           (ultra_module_info_attribute.physical_address d),
       length' = leading_bytes (n - 80) (length' s) (length' d) \<rparr>"

definition example_environment :: "firmware environment" where
  "example_environment =
     \<lparr> do_allocate_critical_bytes = (\<lambda>count. firmware_allocate (CEILING_DIVIDE count 4096) 0xFFFF0000),
       do_allocate_critical_pages = (\<lambda>count. firmware_allocate count 0xFFFF0000),
       do_allocate_critical_pages_with_type = firmware_allocate,
       do_allocate_critical_pages_with_type_at = firmware_allocate_at,
       do_free_bytes = (\<lambda>p count. firmware_free p),
       do_free_pages = (\<lambda>p count. firmware_free p),
       do_map_critical_pages = (\<lambda>root virt phys pages. Some),
       do_map_critical_huge_pages = (\<lambda>root virt phys pages. Some),
       parse_path = (\<lambda>str. if take 1 str = ''/''
          then Some \<lparr> full_path.disk_guid = [], full_path.partition_guid = [],
                      partition_id_type = 0, full_path.partition_index = 0,
                      path_within_partition = str \<rparr>
          else None),
       fs_by_full_path = (\<lambda>path. Some \<lparr> open = (\<lambda>str. Some example_file) \<rparr>),
       elf_bitness = (\<lambda>data len. 64),
       do_elf_load = (\<lambda>data len is64 anywhere ty f.
          ((True, \<lparr> info = example_binary_info, error_msg = [] \<rparr>),
           (case firmware_allocate 4 ty f of None \<Rightarrow> f | Some (p, f') \<Rightarrow> f'))),
       cpu_supports_long_mode = True,
       uninitialised = (\<lambda>p i.
         \<lparr> ultra_module_info_attribute.header =
             \<lparr> ultra_attribute_header.type = ULTRA_ATTRIBUTE_MEMORY_MAP, size_in_bytes = 0xDEADBEEF \<rparr>,
           name = ''garbage'', ultra_module_info_attribute.physical_address = 0xDEADBEEF,
           length' = 0xDEADBEEF \<rparr>),
       memcpy_leading = example_memcpy_leading \<rparr>"

definition example_services :: "firmware services" where
  "example_services =
     \<lparr> provider = SERVICE_PROVIDER_BIOS,
       ms = \<lparr> copy_map = (\<lambda>buf capacity elem_size f.
                 ((of_nat (length (memory_map f)), of_nat (length (memory_map f)),
                   if buf then take (unat capacity) (memory_map f) else []), f)),
              handover = (\<lambda>key f. (key = of_nat (length (memory_map f)), f)) \<rparr>,
       vs = \<lparr> query_resolution = (\<lambda>res f. \<lparr> resolution.width = 1920, resolution.height = 1080 \<rparr>),
              list_modes = (\<lambda>f.
                [\<lparr> video_mode.width = 800, video_mode.height = 600, video_mode.bpp = 32, id' = 0 \<rparr>,
                 \<lparr> video_mode.width = 1024, video_mode.height = 768, video_mode.bpp = 32, id' = 1 \<rparr>,
                 \<lparr> video_mode.width = 1920, video_mode.height = 1080, video_mode.bpp = 32, id' = 2 \<rparr>]),
              set_mode = (\<lambda>mode_id f.
                (Some \<lparr> ultra_framebuffer.physical_address = 0xE0000000, descriptor = [mode_id] \<rparr>, f)) \<rparr>,
       get_rsdp = (\<lambda>f. 0xE0000) \<rparr>"

definition example_world :: "firmware world" where
  "example_world =
     \<lparr> fw = \<lparr> memory_map = [], next_free = 0x100000, pending_splits = 0 \<rparr>,
       trace = [], module_idx = 0 \<rparr>"

text \<open>
  A configuration whose loadable entry asks for a stack of 0x8000 bytes at 0x200000:
  \<^verbatim>\<open>[hello] binary = "/k.elf"  stack = { allocate-at = 0x200000  size = 0x8000 }\<close>.
  The entry is the scope 1, the object is the scope 3.
\<close>

definition string_value :: "u16 \<Rightarrow> string \<Rightarrow> config_value" where
  "string_value off str =
     \<lparr> config_value.type = VALUE_STRING, config_value.cfg_off = off, as_bool = False, as_unsigned = 0,
       as_signed = 0, as_string = str \<rparr>"

definition unsigned_value :: "u16 \<Rightarrow> u64 \<Rightarrow> config_value" where
  "unsigned_value off n =
     \<lparr> config_value.type = VALUE_UNSIGNED, config_value.cfg_off = off, as_bool = False, as_unsigned = n,
       as_signed = 0, as_string = [] \<rparr>"

definition object_value :: "u16 \<Rightarrow> config_value" where
  "object_value off =
     \<lparr> config_value.type = VALUE_OBJECT, config_value.cfg_off = off, as_bool = False, as_unsigned = 0,
       as_signed = 0, as_string = [] \<rparr>"

definition stack_config :: config where
  "stack_config =
     [(1, [(''binary'', string_value 2 ''/k.elf''), (''stack'', object_value 3)]),
      (3, [(''allocate-at'', unsigned_value 4 0x200000), (''size'', unsigned_value 5 0x8000)])]"

definition hello_entry :: loadable_entry where
  "hello_entry = \<lparr> loadable_entry.name = ''hello'', loadable_entry.cfg_off = 1 \<rparr>"

text \<open>
  A configuration with two modules, the first named, the second not:
  \<^verbatim>\<open>[hello] binary = "/k.elf"  module = { name = "init"  path = "/init" }  module = "/mod"\<close>.
\<close>

definition modules_config :: config where
  "modules_config =
     [(1, [(''binary'', string_value 2 ''/k.elf''), (''module'', object_value 3),
           (''module'', string_value 6 ''/mod'')]),
      (3, [(''name'', string_value 4 ''init''), (''path'', string_value 5 ''/init'')])]"

text \<open>The global scope with one unsigned value: \<^verbatim>\<open>timeout = 5\<close>.\<close>

definition global_config :: config where
  "global_config = [(0, [(''timeout'', unsigned_value 1 5)])]"

text \<open>
  A specification of an attribute array with one module, the command line \<^verbatim>\<open>quiet\<close> and
  a framebuffer.
\<close>

definition example_spec :: attribute_array_spec where
  "example_spec =
     zero_spec
       \<lparr> fb_present := True, cmdline_present := True, cmdline := ''quiet'',
         kern_info := zero_kernel_info\<lparr>bin_info := example_binary_info\<rparr>,
         modules := 0x100000,
         modules_array :=
           [\<lparr> ultra_module_info_attribute.header =
                 \<lparr> ultra_attribute_header.type = ULTRA_ATTRIBUTE_MODULE_INFO,
                   size_in_bytes = 88 \<rparr>,
               name = [], ultra_module_info_attribute.physical_address = 0x200000,
               length' = 0x2000 \<rparr>],
         module_count := 1, stack_address := 0x300000 \<rparr>"

section \<open>Relations used in the theorems\<close>

text \<open>
  The allocation loop of \<^verbatim>\<open>build_attribute_array\<close> as the specification describes it, one
  rule for each way an iteration can end. An iteration queries the entry count \<open>n\<close> of the
  memory map, reserves \<open>n + 1\<close> entries, and allocates the static byte requirement plus
  the reserved entries times the stride; it queries the entry count again. It commits, and
  clears the allocation, when the reservation is at least the new count; otherwise it
  frees the allocation and the loop goes on. A failed critical allocation halts.
\<close>

inductive allocation_run ::
  "constants \<Rightarrow> 'fw environment \<Rightarrow> 'fw memory_services \<Rightarrow> size_t \<Rightarrow> 'fw world
     \<Rightarrow> fatal + (u64 \<times> size_t) \<times> 'fw world \<Rightarrow> bool"
  for k env mem needed where
  commit:
    "query_map_size mem w = (n, w1) \<Longrightarrow>
     reserved = n + 1 \<Longrightarrow>
     bytes = needed + reserved * sizeof_ultra_memory_map_entry k \<Longrightarrow>
     allocate_critical_bytes env bytes w1 = Inr (p, w2) \<Longrightarrow>
     query_map_size mem w2 = (n', w3) \<Longrightarrow>
     reserved \<ge> n' \<Longrightarrow>
     allocation_run k env mem needed w (Inr ((ucast p, reserved), memzero p bytes w3))"
| retry:
    "query_map_size mem w = (n, w1) \<Longrightarrow>
     reserved = n + 1 \<Longrightarrow>
     bytes = needed + reserved * sizeof_ultra_memory_map_entry k \<Longrightarrow>
     allocate_critical_bytes env bytes w1 = Inr (p, w2) \<Longrightarrow>
     query_map_size mem w2 = (n', w3) \<Longrightarrow>
     \<not> reserved \<ge> n' \<Longrightarrow>
     allocation_run k env mem needed (free_bytes env p bytes w3) r \<Longrightarrow>
     allocation_run k env mem needed w r"
| halt:
    "query_map_size mem w = (n, w1) \<Longrightarrow>
     reserved = n + 1 \<Longrightarrow>
     bytes = needed + reserved * sizeof_ultra_memory_map_entry k \<Longrightarrow>
     allocate_critical_bytes env bytes w1 = Inl e \<Longrightarrow>
     allocation_run k env mem needed w (Inl e)"

text \<open>
  The events that may precede the final memory-map snapshot: every event but the snapshot
  itself (\<^verbatim>\<open>copy_map\<close> with a buffer), the handover and the jumps.
\<close>

fun preparatory :: "event \<Rightarrow> bool" where
  "preparatory (Copy_map buf capacity elem_size) = (\<not> buf)"
| "preparatory (Handover key) = False"
| "preparatory (Kernel_handover32 entry stack arg magic) = False"
| "preparatory (Kernel_handover64 entry stack pt arg magic) = False"
| "preparatory e = True"

definition extends :: "'fw world \<Rightarrow> 'fw world \<Rightarrow> bool" where
  "extends w w' \<longleftrightarrow> (\<exists>es. trace w' = trace w @ es \<and> (\<forall>e\<in>set es. preparatory e))"

text \<open>The jumps into the kernel, and the calls that map pages.\<close>

fun is_jump :: "event \<Rightarrow> bool" where
  "is_jump (Kernel_handover32 entry stack arg magic) = True"
| "is_jump (Kernel_handover64 entry stack pt arg magic) = True"
| "is_jump e = False"

fun is_mapping :: "event \<Rightarrow> bool" where
  "is_mapping (Map_critical_pages virt phys pages) = True"
| "is_mapping (Map_critical_huge_pages virt phys pages) = True"
| "is_mapping e = False"


section \<open>Theorems\<close>

subsection \<open>Memory-map conversion\<close>

text \<open>
  C7. \<^verbatim>\<open>ultra_memory_map_entry_convert\<close> copies the physical address and the size in
  bytes unchanged. The type is copied when it is at most \<^verbatim>\<open>ULTRA_MEMORY_TYPE_NVS\<close> or at
  least \<^verbatim>\<open>ULTRA_MEMORY_TYPE_LOADER_RECLAIMABLE\<close>, and is \<^verbatim>\<open>ULTRA_MEMORY_TYPE_RESERVED\<close>
  in every other case. Since \<^verbatim>\<open>RESERVED\<close> is itself one of the types that pass through
  (it does not lie strictly between the two bounds), the output type equals the input type
  exactly when the input is in one of the two pass-through ranges.
\<close>

theorem ultra_memory_map_entry_convert_correct:
  "ultra_memory_map_entry.physical_address (ultra_memory_map_entry_convert mt entry)
     = memory_map_entry.physical_address entry
   \<and> ultra_memory_map_entry.size_in_bytes (ultra_memory_map_entry_convert mt entry)
     = memory_map_entry.size_in_bytes entry
   \<and> ultra_memory_map_entry.type (ultra_memory_map_entry_convert mt entry)
     = (if memory_map_entry.type entry \<le> ULTRA_MEMORY_TYPE_NVS mt
           \<or> memory_map_entry.type entry \<ge> ULTRA_MEMORY_TYPE_LOADER_RECLAIMABLE mt
        then memory_map_entry.type entry else ULTRA_MEMORY_TYPE_RESERVED mt)
   \<and> (ULTRA_MEMORY_TYPE_RESERVED mt \<le> ULTRA_MEMORY_TYPE_NVS mt
           \<or> ULTRA_MEMORY_TYPE_RESERVED mt \<ge> ULTRA_MEMORY_TYPE_LOADER_RECLAIMABLE mt
        \<longrightarrow>
         (ultra_memory_map_entry.type (ultra_memory_map_entry_convert mt entry)
            = memory_map_entry.type entry
          \<longleftrightarrow> memory_map_entry.type entry \<le> ULTRA_MEMORY_TYPE_NVS mt
             \<or> memory_map_entry.type entry \<ge> ULTRA_MEMORY_TYPE_LOADER_RECLAIMABLE mt))"
  unfolding ultra_memory_map_entry_convert_def
  by auto

theorem ultra_memory_map_entry_convert_correct_witness:
  "(2 :: u64) \<le> 4
   \<and> ultra_memory_map_entry_convert
     \<lparr> ULTRA_MEMORY_TYPE_RESERVED = 2, ULTRA_MEMORY_TYPE_NVS = 4,
       ULTRA_MEMORY_TYPE_LOADER_RECLAIMABLE = 0xFFFF0000, ULTRA_MEMORY_TYPE_MODULE = 0xFFFF0001,
       ULTRA_MEMORY_TYPE_KERNEL_STACK = 0xFFFF0002, ULTRA_MEMORY_TYPE_KERNEL_BINARY = 0xFFFF0003 \<rparr>
     \<lparr> memory_map_entry.physical_address = 0x100000, memory_map_entry.size_in_bytes = 0x4000,
       memory_map_entry.type = 7 \<rparr>
   = \<lparr> ultra_memory_map_entry.physical_address = 0x100000,
       ultra_memory_map_entry.size_in_bytes = 0x4000, ultra_memory_map_entry.type = 2 \<rparr>"
  using ultra_memory_map_entry_convert_correct [of
     "\<lparr> ULTRA_MEMORY_TYPE_RESERVED = 2, ULTRA_MEMORY_TYPE_NVS = 4,
       ULTRA_MEMORY_TYPE_LOADER_RECLAIMABLE = 0xFFFF0000, ULTRA_MEMORY_TYPE_MODULE = 0xFFFF0001,
       ULTRA_MEMORY_TYPE_KERNEL_STACK = 0xFFFF0002, ULTRA_MEMORY_TYPE_KERNEL_BINARY = 0xFFFF0003 \<rparr>"
     "\<lparr> memory_map_entry.physical_address = 0x100000, memory_map_entry.size_in_bytes = 0x4000,
        memory_map_entry.type = 7 \<rparr>"]
  by (simp add: ultra_memory_map_entry.equality)

subsection \<open>Video-mode selection\<close>

text \<open>
  C4. Under the constraint \<^verbatim>\<open>exactly\<close> the loop of \<^verbatim>\<open>set_video_mode\<close> still runs its
  second test, which does not look at the constraint. With the single enumerated mode
  1920x1080 at 32 bpp, a native resolution of 1920x1080 and the request 1024x768 at 32 bpp
  \<^verbatim>\<open>exactly\<close>, no mode equals the request, and yet the loader does not halt: it picks
  1920x1080.
\<close>

theorem set_video_mode_exactly_picks_larger_mode:
  "pick_video_mode
     \<lparr> requested_video_mode.width = 1024, requested_video_mode.height = 768,
       requested_video_mode.bpp = 32, constraint = VIDEO_MODE_CONSTRAINT_EXACTLY, none = False \<rparr>
     \<lparr> resolution.width = 1920, resolution.height = 1080 \<rparr>
     [\<lparr> video_mode.width = 1920, video_mode.height = 1080, video_mode.bpp = 32, id' = 0 \<rparr>]
   = Inr \<lparr> video_mode.width = 1920, video_mode.height = 1080, video_mode.bpp = 32, id' = 0 \<rparr>"
  by (simp add: pick_video_mode_def VM_EQUALS_def VM_GREATER_OR_EQUAL_def VM_LESS_OR_EQUAL_def)


subsection \<open>Evaluation of the concrete runs\<close>

lemmas cfg_defs = cfg_get_one_of_def cfg_get_first_one_of_def raw_cfg_get_one_of_def cfg_find_def
  scope_entries_def cfg_get_string_def raw_cfg_get_string_def cfg_get_unsigned_def
  raw_cfg_get_unsigned_def cfg_get_bool_def raw_cfg_get_bool_def CFG_MANDATORY_GET_string_def
  CFG_MANDATORY_GET_ONE_OF_def mandatory_def cfg_get_next_one_of_def object_value_def
  unsigned_value_def string_value_def VALUE_STRING_def VALUE_OBJECT_def VALUE_UNSIGNED_def
  VALUE_NONE_def VALUE_SIGNED_def VALUE_BOOLEAN_def value_is_object_def value_is_string_def
  value_is_null_def

lemmas example_defs = example_constants_def example_memory_types_def example_environment_def
  example_services_def example_world_def firmware_allocate_def firmware_allocate_at_def
  firmware_free_def example_file_def example_binary_info_def hello_entry_def

lemmas world_defs = and_then_def record_event_def allocate_critical_bytes_def
  allocate_critical_pages_def allocate_critical_pages_with_type_def
  allocate_critical_pages_with_type_at_def free_bytes_def free_pages_def memzero_def
  map_critical_pages_def map_critical_huge_pages_def query_map_size_def CEILING_DIVIDE_def
  KB_def MB_def GB_def

lemmas loader_defs = ultra_protocol_load_def ultra_protocol_load_prepare_def
  ultra_protocol_load_kernel_def ultra_protocol_load_modules_def ultra_protocol_load_machine_def
  ultra_protocol_load_handover_def load_kernel_def get_binary_options_def build_page_table_def
  pick_stack_def set_video_mode_def video_mode_from_value_def pick_video_mode_def VM_EQUALS_def
  VM_GREATER_OR_EQUAL_def VM_LESS_OR_EQUAL_def DEFAULT_WIDTH_def DEFAULT_HEIGHT_def
  DEFAULT_BPP_def build_attribute_array_def write_attribute_array_def
  create_kernel_info_attribute_def bytes_needed_def cmdline_aligned_length_def
  module_records_def ultra_memory_map_entry_convert_def LOAD_NAME_STRING_def
  allocate_attribute_array.simps load_modules.simps zero_kernel_info_def zero_framebuffer_def
  zero_spec_def load_module_step_def grow_modules_def module_load_def snprintf_unnamed_module_def
  format_d_def fresh_module_array_def MODULES_PER_PAGE_def memcpy_modules_def
  example_memcpy_leading_def leading_bytes_def upt_rec enumerate_eq_zip

lemma and_then_Inr: "and_then m f = Inr y \<Longrightarrow> \<exists>x. m = Inr x \<and> f x = Inr y"
  by (cases m) (simp_all add: and_then_def)

subsection \<open>The lookup macros\<close>

text \<open>
  C10. The macro \<^verbatim>\<open>cfg_get_global_signed\<close> expands to the unsigned lookup
  \<^verbatim>\<open>_cfg_get_unsigned(cfg, 0, true, key, out)\<close>, and \<^verbatim>\<open>cfg_get_global_unsigned\<close> to the
  signed lookup \<^verbatim>\<open>_cfg_get_signed(cfg, 0, true, key, out)\<close>, whereas the scoped macros
  \<^verbatim>\<open>cfg_get_signed\<close> and \<^verbatim>\<open>cfg_get_unsigned\<close> expand to the lookup of their own type.
  So a value that \<^verbatim>\<open>cfg_get_global_signed\<close> finds is the only entry of its key in the
  global scope and is unsigned, and one that \<^verbatim>\<open>cfg_get_global_unsigned\<close> finds is
  signed.
\<close>

theorem cfg_get_global_macros_swapped:
  "cfg_get_global_signed cfg key = raw_cfg_get_unsigned cfg 0 True key
   \<and> cfg_get_global_unsigned cfg key = raw_cfg_get_signed cfg 0 True key
   \<and> cfg_get_signed cfg off key = raw_cfg_get_signed cfg off True key
   \<and> cfg_get_unsigned cfg off key = raw_cfg_get_unsigned cfg off True key
   \<and> (\<forall>n. cfg_get_global_signed cfg key = Inr (Some n) \<longrightarrow>
         (\<exists>val. cfg_find cfg 0 key = [val] \<and> config_value.type val AND VALUE_UNSIGNED \<noteq> 0
                \<and> as_unsigned val = n))
   \<and> (\<forall>i. cfg_get_global_unsigned cfg key = Inr (Some i) \<longrightarrow>
         (\<exists>val. cfg_find cfg 0 key = [val] \<and> config_value.type val AND VALUE_SIGNED \<noteq> 0
                \<and> sint (as_signed val) = i))"
  by (auto simp: cfg_get_global_signed_def cfg_get_global_unsigned_def cfg_get_signed_def
        cfg_get_unsigned_def raw_cfg_get_unsigned_def raw_cfg_get_signed_def
        raw_cfg_get_one_of_def
      split: list.splits if_splits)

theorem cfg_get_global_macros_swapped_witness:
  "cfg_get_global_signed global_config ''timeout'' = Inr (Some 5)
   \<and> cfg_get_global_unsigned global_config ''timeout'' = Inl (Oops ''unexpected type'')
   \<and> cfg_get_unsigned global_config 0 ''timeout'' = Inr (Some 5)
   \<and> cfg_find global_config 0 ''timeout'' = [unsigned_value 1 5]"
  using cfg_get_global_macros_swapped [of global_config "''timeout''" 0]
  by (simp add: global_config_def cfg_defs raw_cfg_get_signed_def)

subsection \<open>The kernel stack\<close>

text \<open>
  C9. \<^verbatim>\<open>pick_stack\<close> looks the sub-keys \<^verbatim>\<open>allocate-at\<close> and \<^verbatim>\<open>size\<close> up in the
  loadable entry, not in the object that is the value of \<^verbatim>\<open>stack\<close>. For the entry
  \<^verbatim>\<open>stack = { allocate-at = 0x200000  size = 0x8000 }\<close> neither is found: the stack is
  the default 16 KiB (4 pages), allocated wherever the allocator puts it (here at
  0x100000, so that the stack pointer is 0x104000), and no allocation at a fixed address
  takes place.
\<close>

theorem pick_stack_ignores_object_keys:
  "map_sum (\<lambda>e. e) (\<lambda>(address, w). (address, trace w))
     (pick_stack example_constants example_environment stack_config hello_entry example_world)
   = Inr (0x104000, [Allocate_critical_pages_with_type 4 0xFFFF0002 0x100000])"
  by (simp add: pick_stack_def stack_config_def cfg_defs example_defs world_defs)

subsection \<open>The modules\<close>

text \<open>
  Whatever the module, \<^verbatim>\<open>module_load\<close> leaves an empty name: the compound literal
  assigned at the end zeroes the member.
\<close>

lemma module_load_name:
  "module_load k env cfg module_value attrs w = Inr (attrs', w') \<Longrightarrow>
   ultra_module_info_attribute.name attrs' = []"
  unfolding module_load_def Let_def
  by (auto dest!: and_then_Inr split: if_splits prod.splits option.splits)

subsection \<open>The allocation loop\<close>

lemma ptr_via_u64: "(ucast (ucast (p :: ptr_t) :: u64) :: ptr_t) = p"
  by (simp add: ucast_up_ucast_id is_up)

lemma allocation_run_if_Some:
  assumes "allocate_attribute_array k env mem needed w = Some r"
  shows "allocation_run k env mem needed w r"
  using assms
proof (induction rule: allocate_attribute_array.raw_induct [rotated 1, consumes 1])
  case (1 loop k env mem needed w r)
  obtain n w1 where q1: "query_map_size mem w = (n, w1)"
    by (cases "query_map_size mem w")
  let ?reserved = "n + 1"
  let ?bytes = "needed + ?reserved * sizeof_ultra_memory_map_entry k"
  show ?case
  proof (cases "allocate_critical_bytes env ?bytes w1")
    case (Inl e)
    with 1(2) q1 have "r = Inl e" by (simp add: Let_def)
    with q1 Inl show ?thesis by (auto intro: allocation_run.halt)
  next
    case (Inr pw)
    obtain p w2 where pw: "pw = (p, w2)" by (cases pw)
    obtain n' w3 where q2: "query_map_size mem w2 = (n', w3)"
      by (cases "query_map_size mem w2")
    show ?thesis
    proof (cases "?reserved \<ge> n'")
      case True
      with 1(2) q1 Inr pw q2
      have "r = Inr ((ucast p, ?reserved), memzero p ?bytes w3)"
        by (simp add: Let_def ptr_via_u64)
      with q1 Inr pw q2 True show ?thesis
        by (auto intro: allocation_run.commit)
    next
      case False
      with 1(2) q1 Inr pw q2
      have "loop k env mem needed (free_bytes env p ?bytes w3) = Some r"
        by (simp add: Let_def ptr_via_u64)
      then have "allocation_run k env mem needed (free_bytes env p ?bytes w3) r"
        by (rule 1(1))
      with q1 Inr pw q2 False show ?thesis
        by (auto intro: allocation_run.retry)
    qed
  qed
qed

lemma Some_if_allocation_run:
  "allocation_run k env mem needed w r \<Longrightarrow> allocate_attribute_array k env mem needed w = Some r"
proof (induction rule: allocation_run.induct)
  case (commit w n w1 reserved bytes p w2 n' w3)
  then show ?case
    by (subst allocate_attribute_array.simps) (simp add: Let_def ptr_via_u64)
next
  case (retry w n w1 reserved bytes p w2 n' w3 r)
  then show ?case
    by (subst allocate_attribute_array.simps) (simp add: Let_def ptr_via_u64)
next
  case (halt w n w1 reserved bytes e)
  then show ?case
    by (subst allocate_attribute_array.simps) (simp add: Let_def)
qed

text \<open>
  A run of two iterations: the first allocation splits a free region, so the memory map
  grows by two entries and exceeds the reservation of one; the second attempt reserves
  two entries and commits.
\<close>

lemma allocation_run_two_iterations:
  "\<exists>w'. allocation_run example_constants example_environment (ms example_services) 100
          (example_world\<lparr>fw := (fw example_world)\<lparr>pending_splits := 1\<rparr>\<rparr>)
          (Inr ((0x102000, 2), w'))
        \<and> trace w' =
            [Copy_map False 0 0, Allocate_critical_bytes 124 0x100000, Copy_map False 0 0,
             Free_bytes 0x100000 124,
             Copy_map False 0 0, Allocate_critical_bytes 148 0x102000, Copy_map False 0 0,
             Memzero 0x102000 148]"
proof -
  have "\<exists>w'. allocate_attribute_array example_constants example_environment
               (ms example_services) 100
               (example_world\<lparr>fw := (fw example_world)\<lparr>pending_splits := 1\<rparr>\<rparr>)
             = Some (Inr ((0x102000, 2), w'))
           \<and> trace w' =
               [Copy_map False 0 0, Allocate_critical_bytes 124 0x100000, Copy_map False 0 0,
                Free_bytes 0x100000 124,
                Copy_map False 0 0, Allocate_critical_bytes 148 0x102000, Copy_map False 0 0,
                Memzero 0x102000 148]"
    by (simp add: allocate_attribute_array.simps example_defs world_defs word_le_nat_alt)
  then show ?thesis
    using allocation_run_if_Some
      [of example_constants example_environment "ms example_services" 100]
    by blast
qed


subsection \<open>The records of the attribute array\<close>






lemma map_snd_module_records: "map snd (module_records p sz mods) = map Module_info mods"
  by (auto simp: module_records_def enumerate_eq_zip intro!: nth_equalityI)

lemma write_attribute_array_records:
  assumes "write_attribute_array k spec sp mem address reserved w = Inr ((arr, hi), w')"
  shows "(\<exists>platform kernel memory_map.
           map snd (attributes arr) =
             [Platform_info platform, Kernel_info kernel]
             @ map Module_info (take (unat (module_count spec)) (modules_array spec))
             @ (if cmdline_present spec
                then [Command_line
                        \<lparr> ultra_command_line_attribute.header =
                            \<lparr> ultra_attribute_header.type = ULTRA_ATTRIBUTE_COMMAND_LINE,
                              size_in_bytes = cmdline_aligned_length k spec \<rparr>,
                          text' = cmdline spec \<rparr>]
                else [])
             @ (if fb_present spec
                then [Framebuffer_info
                        \<lparr> ultra_framebuffer_attribute.header =
                            \<lparr> ultra_attribute_header.type = ULTRA_ATTRIBUTE_FRAMEBUFFER_INFO,
                              size_in_bytes = sizeof_ultra_framebuffer_attribute k \<rparr>,
                          ultra_framebuffer_attribute.fb = attribute_array_spec.fb spec \<rparr>]
                else [])
             @ [Memory_map memory_map])
         \<and> length (take (unat (module_count spec)) (modules_array spec)) = unat (module_count spec)
         \<and> attribute_count arr
             = 2 + module_count spec + (if cmdline_present spec then 1 else 0)
               + (if fb_present spec then 1 else 0) + 1"
  using assms
  unfolding write_attribute_array_def Let_def and_then_def
  by (auto simp: map_snd_module_records split: sum.splits if_splits prod.splits)


subsection \<open>The events of a run\<close>

lemma extends_refl [simp]: "extends w w"
  by (simp add: extends_def)

lemma extends_trans: "extends w w1 \<Longrightarrow> extends w1 w2 \<Longrightarrow> extends w w2"
  by (auto simp: extends_def)

lemma extends_fw [simp]: "extends w (w'\<lparr>fw := f\<rparr>) = extends w w'"
  by (simp add: extends_def)

lemma extends_fw_left [simp]: "extends (w\<lparr>fw := f\<rparr>) w' = extends w w'"
  by (simp add: extends_def)

lemma extends_module_idx_left [simp]: "extends (w\<lparr>module_idx := i\<rparr>) w' = extends w w'"
  by (simp add: extends_def)

lemma extends_record_event: "preparatory e \<Longrightarrow> extends w w' \<Longrightarrow> extends w (record_event e w')"
  by (auto simp: extends_def record_event_def)

lemma extends_allocate_critical_bytes:
  "allocate_critical_bytes env n w = Inr (p, w') \<Longrightarrow> extends w w'"
  by (auto simp: allocate_critical_bytes_def extends_record_event split: option.splits)

lemma extends_allocate_critical_pages:
  "allocate_critical_pages env n w = Inr (p, w') \<Longrightarrow> extends w w'"
  by (auto simp: allocate_critical_pages_def extends_record_event split: option.splits)

lemma extends_allocate_critical_pages_with_type:
  "allocate_critical_pages_with_type env n ty w = Inr (p, w') \<Longrightarrow> extends w w'"
  by (auto simp: allocate_critical_pages_with_type_def extends_record_event split: option.splits)

lemma extends_allocate_critical_pages_with_type_at:
  "allocate_critical_pages_with_type_at env a n ty w = Inr w' \<Longrightarrow> extends w w'"
  by (auto simp: allocate_critical_pages_with_type_at_def extends_record_event split: option.splits)

lemma extends_free_bytes: "extends w w' \<Longrightarrow> extends w (free_bytes env p n w')"
  by (simp add: free_bytes_def extends_record_event)

lemma extends_free_pages: "extends w w' \<Longrightarrow> extends w (free_pages env p n w')"
  by (simp add: free_pages_def extends_record_event)

lemma extends_memzero: "extends w w' \<Longrightarrow> extends w (memzero p n w')"
  by (simp add: memzero_def extends_record_event)

lemma extends_map_critical_pages:
  "map_critical_pages env root v p n w = Inr w' \<Longrightarrow> extends w w'"
  by (auto simp: map_critical_pages_def extends_record_event split: option.splits)

lemma extends_map_critical_huge_pages:
  "map_critical_huge_pages env root v p n w = Inr w' \<Longrightarrow> extends w w'"
  by (auto simp: map_critical_huge_pages_def extends_record_event split: option.splits)

lemma extends_query_map_size: "query_map_size mem w = (n, w') \<Longrightarrow> extends w w'"
  by (auto simp: query_map_size_def extends_record_event split: prod.splits)

lemma extends_pick_stack:
  assumes "pick_stack k env cfg le w = Inr (a, w')"
  shows "extends w w'"
proof -
  from assms obtain address pages where
    "(address \<noteq> 0 \<and> allocate_critical_pages_with_type_at env address pages
          (ULTRA_MEMORY_TYPE_KERNEL_STACK (memory_types k)) w = Inr w')
     \<or> (\<exists>p. allocate_critical_pages_with_type env pages
          (ULTRA_MEMORY_TYPE_KERNEL_STACK (memory_types k)) w = Inr (p, w'))"
    unfolding pick_stack_def Let_def
    by (fastforce dest!: and_then_Inr split: if_splits prod.splits)
  then show ?thesis
    by (auto dest: extends_allocate_critical_pages_with_type_at extends_allocate_critical_pages_with_type)
qed


lemma trace_allocate_critical_pages:
  "allocate_critical_pages env n w = Inr (p, w') \<Longrightarrow> trace w' = trace w @ [Allocate_critical_pages n p]"
  by (auto simp: allocate_critical_pages_def record_event_def split: option.splits)

lemma trace_map_critical_pages:
  "map_critical_pages env root v p n w = Inr w' \<Longrightarrow> trace w' = trace w @ [Map_critical_pages v p n]"
  by (auto simp: map_critical_pages_def record_event_def split: option.splits)

lemma trace_map_critical_huge_pages:
  "map_critical_huge_pages env root v p n w = Inr w'
   \<Longrightarrow> trace w' = trace w @ [Map_critical_huge_pages v p n]"
  by (auto simp: map_critical_huge_pages_def record_event_def split: option.splits)

lemma trace_memzero [simp]: "trace (memzero p n w) = trace w @ [Memzero p n]"
  by (simp add: memzero_def record_event_def)

lemma trace_build_page_table:
  assumes "build_page_table k env bi w = Inr (pt, w')" and "bitness bi = 64"
  shows "\<exists>root. pt = ucast root \<and>
           trace w' = trace w @
             [Allocate_critical_pages 1 root,
              Memzero root (PAGE_SIZE k),
              Map_critical_huge_pages 0 0 (ucast ((4 * ucast GB) div HUGE_PAGE_SIZE k)),
              Map_critical_huge_pages (DIRECT_MAP_BASE k) 0
                (ucast ((4 * ucast GB) div HUGE_PAGE_SIZE k)),
              if kernel_range_is_direct_map bi
              then Map_critical_huge_pages (HIGHER_HALF_BASE k) 0
                     (ucast ((2 * ucast GB) div HUGE_PAGE_SIZE k))
              else Map_critical_pages (binary_info.virtual_base bi) (binary_info.physical_base bi)
                     (CEILING_DIVIDE
                        (ucast (physical_ceiling bi - binary_info.physical_base bi))
                        (PAGE_SIZE k))]"
  using assms unfolding build_page_table_def Let_def
  by (auto dest!: and_then_Inr trace_allocate_critical_pages trace_map_critical_pages
        trace_map_critical_huge_pages split: if_splits prod.splits)

lemma extends_build_page_table:
  assumes "build_page_table k env bi w = Inr (pt, w')"
  shows "extends w w'"
proof (cases "bitness bi = 64")
  case True
  from trace_build_page_table [OF assms True] show ?thesis
    by (auto simp: extends_def)
next
  case False
  with assms show ?thesis by (simp add: build_page_table_def)
qed


lemma extends_load_kernel:
  assumes "load_kernel k env cfg entry info0 w = Inr (ki, w')"
  shows "extends w w'"
proof -
  from assms obtain n p w1 f where
    "allocate_critical_bytes env n w = Inr (p, w1)" and "w' = record_event Elf_load (w1\<lparr>fw := f\<rparr>)"
    unfolding load_kernel_def Let_def
    by (fastforce dest!: and_then_Inr split: if_splits prod.splits option.splits)
  then show ?thesis
    by (auto dest!: extends_allocate_critical_bytes intro!: extends_record_event)
qed

lemma extends_module_load:
  assumes "module_load k env cfg module_value attrs w = Inr (attrs', w')"
  shows "extends w w'"
proof -
  from assms obtain n ty p where
    "allocate_critical_pages_with_type env n ty (w\<lparr>module_idx := module_idx w + 1\<rparr>) = Inr (p, w')"
    unfolding module_load_def Let_def
    by (fastforce dest!: and_then_Inr split: if_splits prod.splits option.splits)
  then show ?thesis
    by (auto dest!: extends_allocate_critical_pages_with_type)
qed

lemma extends_grow_modules:
  assumes "grow_modules k env spec capacity w = Inr (st, w')"
  shows "extends w w'"
  using assms unfolding grow_modules_def Let_def
  by (auto dest!: and_then_Inr extends_allocate_critical_pages intro: extends_free_pages
        split: if_splits)

lemma extends_load_module_step:
  assumes "load_module_step k env cfg module_value st w = Inr (st', w')"
  shows "extends w w'"
proof -
  obtain spec capacity where st: "st = (spec, capacity)" by (cases st)
  from assms show ?thesis
    unfolding load_module_step_def st Let_def
    by (auto dest!: and_then_Inr extends_grow_modules extends_module_load
             split: if_splits prod.splits intro: extends_trans)
qed

lemma extends_load_modules_result:
  assumes "load_modules k env cfg module_value st w = Some r"
  shows "case r of Inl e \<Rightarrow> True | Inr (st', w') \<Rightarrow> extends w w'"
  using assms
proof (induction rule: load_modules.raw_induct [rotated 1, consumes 1])
  case (1 loop k env cfg module_value st w r)
  show ?case
  proof (cases "load_module_step k env cfg module_value st w")
    case (Inl e)
    with 1(2) show ?thesis by auto
  next
    case (Inr sw)
    obtain st1 w1 where sw: "sw = (st1, w1)" by (cases sw)
    from Inr sw have e1: "extends w w1" by (auto dest: extends_load_module_step)
    show ?thesis
    proof (cases "cfg_get_next_one_of cfg (VALUE_STRING OR VALUE_OBJECT) module_value True")
      case (Inl e)
      with 1(2) Inr sw show ?thesis by auto
    next
      case found: (Inr next_opt)
      show ?thesis
      proof (cases next_opt)
        case None
        with 1(2) Inr sw found e1 show ?thesis by auto
      next
        case (Some next_value)
        with 1(2) Inr sw found have "loop k env cfg next_value st1 w1 = Some r" by simp
        from 1(1) [OF this] e1 show ?thesis
          by (auto split: sum.splits intro: extends_trans)
      qed
    qed
  qed
qed

lemma extends_load_modules:
  assumes "load_modules k env cfg module_value st w = Some (Inr (st', w'))"
  shows "extends w w'"
  using extends_load_modules_result [OF assms] by simp

lemma extends_set_video_mode:
  assumes "set_video_mode cfg entry video out_fb w = Inr (r, w')"
  shows "extends w w'"
proof -
  from assms have "w' = w \<or> (\<exists>mode_id f. w' = record_event (Set_mode mode_id) (w\<lparr>fw := f\<rparr>))"
    unfolding set_video_mode_def Let_def
    by (fastforce dest!: and_then_Inr split: if_splits prod.splits option.splits)
  then show ?thesis
    by (auto intro!: extends_record_event)
qed

lemma extends_allocate_attribute_array:
  assumes "allocate_attribute_array k env mem needed w = Some (Inr (r, w'))"
  shows "extends w w'"
proof -
  have "allocation_run k env mem needed w res \<Longrightarrow> res = Inr (r, w') \<Longrightarrow> extends w w'" for res
  proof (induction rule: allocation_run.induct)
    case (commit w n w1 reserved bytes p w2 n' w3)
    then show ?case
      by (auto dest!: extends_query_map_size extends_allocate_critical_bytes
               intro!: extends_memzero intro: extends_trans)
  next
    case (retry w n w1 reserved bytes p w2 n' w3 res)
    from retry have "extends w w3"
      by (auto dest!: extends_query_map_size extends_allocate_critical_bytes intro: extends_trans)
    then have "extends w (free_bytes env p bytes w3)" by (rule extends_free_bytes)
    with retry show ?case by (auto intro: extends_trans)
  next
    case (halt w n w1 reserved bytes e)
    then show ?case by simp
  qed
  with assms allocation_run_if_Some show ?thesis by blast
qed

lemma trace_write_attribute_array:
  assumes "write_attribute_array k spec sp mem address reserved w = Inr ((arr, hi), w')"
  shows "trace w' = trace w @ [Copy_map True reserved (sizeof_ultra_memory_map_entry k)]"
  using assms unfolding write_attribute_array_def Let_def
  by (auto simp: record_event_def dest!: and_then_Inr split: if_splits prod.splits)

lemma trace_build_attribute_array:
  assumes "build_attribute_array k env spec sp mem w = Some (Inr ((arr, hi), w'))"
  shows "\<exists>w1 reserved. extends w w1
           \<and> trace w' = trace w1 @ [Copy_map True reserved (sizeof_ultra_memory_map_entry k)]"
proof -
  from assms obtain address reserved w1 where
    a: "allocate_attribute_array k env mem (bytes_needed k spec) w = Some (Inr ((address, reserved), w1))"
    and b: "write_attribute_array k spec sp mem address reserved w1 = Inr ((arr, hi), w')"
    by (auto simp: build_attribute_array_def split: option.splits sum.splits)
  from a have "extends w w1" by (rule extends_allocate_attribute_array)
  with trace_write_attribute_array [OF b] show ?thesis by blast
qed

lemma kern_info_grow_modules:
  "grow_modules k env spec capacity w = Inr ((spec', capacity'), w') \<Longrightarrow> kern_info spec' = kern_info spec"
  unfolding grow_modules_def Let_def
  by (auto dest!: and_then_Inr split: if_splits)

lemma kern_info_load_module_step:
  assumes "load_module_step k env cfg module_value (spec, capacity) w = Inr ((spec', capacity'), w')"
  shows "kern_info spec' = kern_info spec"
  using assms unfolding load_module_step_def Let_def
  by (auto dest!: and_then_Inr kern_info_grow_modules split: if_splits)

lemma kern_info_load_modules_result:
  assumes "load_modules k env cfg module_value st w = Some r"
  shows "case r of Inl e \<Rightarrow> True | Inr (st', w') \<Rightarrow> kern_info (fst st') = kern_info (fst st)"
  using assms
proof (induction rule: load_modules.raw_induct [rotated 1, consumes 1])
  case (1 loop k env cfg module_value st w r)
  obtain spec capacity where st: "st = (spec, capacity)" by (cases st)
  show ?case
  proof (cases "load_module_step k env cfg module_value st w")
    case (Inl e)
    with 1(2) show ?thesis by auto
  next
    case (Inr sw)
    obtain spec1 capacity1 w1 where sw: "sw = ((spec1, capacity1), w1)" by (cases sw) auto
    from Inr sw st have e1: "kern_info spec1 = kern_info spec"
      by (auto dest: kern_info_load_module_step)
    show ?thesis
    proof (cases "cfg_get_next_one_of cfg (VALUE_STRING OR VALUE_OBJECT) module_value True")
      case (Inl e)
      with 1(2) Inr sw show ?thesis by auto
    next
      case found: (Inr next_opt)
      show ?thesis
      proof (cases next_opt)
        case None
        with 1(2) Inr sw found e1 st show ?thesis by auto
      next
        case (Some next_value)
        with 1(2) Inr sw found
        have "loop k env cfg next_value (spec1, capacity1) w1 = Some r" by simp
        from 1(1) [OF this] e1 st show ?thesis
          by (auto split: sum.splits)
      qed
    qed
  qed
qed

lemma kern_info_zero_spec: "kern_info zero_spec = zero_kernel_info"
  by (simp add: zero_spec_def)

lemma kernel_steps:
  assumes "ultra_protocol_load_kernel k env cfg le w = Inr ((spec, hh), w')"
  shows "extends w w'
         \<and> hh = (entrypoint_address (bin_info (kern_info spec)) \<ge> HIGHER_HALF_BASE k)"
  using assms unfolding ultra_protocol_load_kernel_def Let_def
  by (auto dest!: and_then_Inr extends_allocate_critical_pages extends_load_kernel
           intro: extends_trans)

lemma modules_steps:
  assumes "ultra_protocol_load_modules k env cfg le (spec, capacity) w = Some (Inr ((spec', capacity'), w'))"
  shows "extends w w' \<and> kern_info spec' = kern_info spec"
  using assms
    extends_load_modules_result [of k env cfg _ "(spec, capacity)" w "Inr ((spec', capacity'), w')"]
    kern_info_load_modules_result [of k env cfg _ "(spec, capacity)" w "Inr ((spec', capacity'), w')"]
  unfolding ultra_protocol_load_modules_def
  by (auto split: sum.splits option.splits)

lemma machine_steps:
  assumes "ultra_protocol_load_machine k env cfg le sv spec w = Inr ((spec', pt), w')"
  shows "\<exists>w1 w2.
           build_page_table k env (bin_info (kern_info spec)) w = Inr (pt, w1)
         \<and> pick_stack k env cfg le w1 = Inr (stack_address spec', w2)
         \<and> set_video_mode cfg le (vs sv) (attribute_array_spec.fb spec) w2
             = Inr ((fb_present spec', attribute_array_spec.fb spec'), w')
         \<and> kern_info spec' = kern_info spec"
  using assms unfolding ultra_protocol_load_machine_def Let_def
  by (auto dest!: and_then_Inr)

lemma extends_machine:
  assumes "ultra_protocol_load_machine k env cfg le sv spec w = Inr ((spec', pt), w')"
  shows "extends w w'"
  using machine_steps [OF assms]
  by (auto dest!: extends_build_page_table extends_pick_stack extends_set_video_mode
           intro: extends_trans)

lemma prepare_steps:
  assumes "ultra_protocol_load_prepare k env cfg le sv w = Some (Inr ((spec, pt, hh), w'))"
  shows "\<exists>spec1 w1 spec2 capacity w2.
           ultra_protocol_load_kernel k env cfg le w = Inr ((spec1, hh), w1)
         \<and> ultra_protocol_load_modules k env cfg le (spec1, MODULES_PER_PAGE k) w1
             = Some (Inr ((spec2, capacity), w2))
         \<and> ultra_protocol_load_machine k env cfg le sv spec2 w2 = Inr ((spec, pt), w')"
  using assms unfolding ultra_protocol_load_prepare_def
  by (auto split: sum.splits option.splits)

lemma extends_prepare:
  assumes "ultra_protocol_load_prepare k env cfg le sv w = Some (Inr ((spec, pt, hh), w'))"
  shows "extends w w'"
  using prepare_steps [OF assms]
  by (auto dest!: kernel_steps modules_steps extends_machine intro: extends_trans)

lemma higher_half_prepare:
  assumes "ultra_protocol_load_prepare k env cfg le sv w = Some (Inr ((spec, pt, hh), w'))"
  shows "hh = (entrypoint_address (bin_info (kern_info spec)) \<ge> HIGHER_HALF_BASE k)"
  using prepare_steps [OF assms]
  by (auto dest!: kernel_steps modules_steps machine_steps)

lemma handover_steps:
  assumes "ultra_protocol_load_handover k env sv spec0 pt hh w = Some (Inr ((arr, spec, hi), w'))"
  shows "\<exists>hi0 w1.
           build_attribute_array k env
             (spec0\<lparr> attribute_array_spec.fb := (attribute_array_spec.fb spec0)
                        \<lparr> ultra_framebuffer.physical_address :=
                            ultra_framebuffer.physical_address (attribute_array_spec.fb spec0)
                            + (if hh then DIRECT_MAP_BASE k else 0) \<rparr> \<rparr>)
             (provider sv) (ms sv) w = Some (Inr ((arr, hi0), w1))
         \<and> stack_address spec = stack_address spec0 + (if hh then DIRECT_MAP_BASE k else 0)
         \<and> attribute_array_address hi
             = attribute_array_address hi0 + (if hh then DIRECT_MAP_BASE k else 0)
         \<and> kern_info spec = kern_info spec0
         \<and> trace w' = trace w1 @
             [Handover (memory_map_handover_key hi0),
              if bitness (bin_info (kern_info spec0)) = 32
              then Kernel_handover32 (entrypoint_address (bin_info (kern_info spec0)))
                     (stack_address spec) (ucast (attribute_array_address hi)) (ULTRA_MAGIC k)
              else Kernel_handover64 (entrypoint_address (bin_info (kern_info spec0)))
                     (stack_address spec) pt (attribute_array_address hi) (ULTRA_MAGIC k)]"
proof (cases hh)
  case True
  with assms show ?thesis
    unfolding ultra_protocol_load_handover_def Let_def
    by (auto simp: record_event_def split: option.splits sum.splits prod.splits if_splits)
next
  case False
  have "spec0\<lparr> attribute_array_spec.fb := (attribute_array_spec.fb spec0)
                        \<lparr> ultra_framebuffer.physical_address :=
                            ultra_framebuffer.physical_address (attribute_array_spec.fb spec0)
                            + 0 \<rparr> \<rparr> = spec0"
    by simp
  with False assms show ?thesis
    unfolding ultra_protocol_load_handover_def Let_def
    by (auto simp: record_event_def split: option.splits sum.splits prod.splits if_splits)
qed


lemma trace_allocate_critical_bytes:
  "allocate_critical_bytes env n w = Inr (p, w') \<Longrightarrow> trace w' = trace w @ [Allocate_critical_bytes n p]"
  by (auto simp: allocate_critical_bytes_def record_event_def split: option.splits)

lemma trace_query_map_size:
  "query_map_size mem w = (n, w') \<Longrightarrow> trace w' = trace w @ [Copy_map False 0 0]"
  by (auto simp: query_map_size_def record_event_def split: prod.splits)

lemma allocation_run_placement:
  assumes "allocation_run k env mem needed w res" and "res = Inr ((address, reserved), w')"
  shows "\<exists>p bytes before.
           address = ucast p
         \<and> trace w' = before @ [Allocate_critical_bytes bytes p, Copy_map False 0 0, Memzero p bytes]"
  using assms
proof (induction rule: allocation_run.induct)
  case (commit w n w1 reserved' bytes p w2 n' w3)
  then show ?case
    by (auto dest!: trace_allocate_critical_bytes trace_query_map_size)
next
  case (retry w n w1 reserved' bytes p w2 n' w3 res)
  then show ?case by simp
next
  case (halt w n w1 reserved' bytes e)
  then show ?case by simp
qed

lemma write_attribute_array_placement:
  assumes "write_attribute_array k spec sp mem address reserved w = Inr ((arr, hi), w')"
  shows "attribute_array_address hi = address
         \<and> attributes arr \<noteq> []
         \<and> fst (hd (attributes arr)) = ucast address + 8"
  using assms unfolding write_attribute_array_def Let_def
  by (auto dest!: and_then_Inr split: if_splits prod.splits)

lemma build_attribute_array_placement:
  assumes "build_attribute_array k env spec sp mem w = Some (Inr ((arr, hi), w'))"
  shows "\<exists>p bytes before reserved.
           attribute_array_address hi = ucast p
         \<and> trace w' = before @ [Allocate_critical_bytes bytes p, Copy_map False 0 0, Memzero p bytes,
                                 Copy_map True reserved (sizeof_ultra_memory_map_entry k)]
         \<and> attributes arr \<noteq> []
         \<and> fst (hd (attributes arr)) = p + 8"
proof -
  from assms obtain address reserved w1 where
    a: "allocate_attribute_array k env mem (bytes_needed k spec) w = Some (Inr ((address, reserved), w1))"
    and b: "write_attribute_array k spec sp mem address reserved w1 = Inr ((arr, hi), w')"
    by (auto simp: build_attribute_array_def split: option.splits sum.splits)
  from a have "allocation_run k env mem (bytes_needed k spec) w (Inr ((address, reserved), w1))"
    by (rule allocation_run_if_Some)
  from allocation_run_placement [OF this refl] obtain p bytes before where
    "address = ucast p"
    "trace w1 = before @ [Allocate_critical_bytes bytes p, Copy_map False 0 0, Memzero p bytes]"
    by blast
  with write_attribute_array_placement [OF b] trace_write_attribute_array [OF b]
  show ?thesis by (auto simp: ptr_via_u64)
qed

lemma build_attribute_array_framebuffer:
  assumes "build_attribute_array k env spec sp mem w = Some (Inr ((arr, hi), w'))"
      and "fb_present spec"
  shows "Framebuffer_info
           \<lparr> ultra_framebuffer_attribute.header =
               \<lparr> ultra_attribute_header.type = ULTRA_ATTRIBUTE_FRAMEBUFFER_INFO,
                 size_in_bytes = sizeof_ultra_framebuffer_attribute k \<rparr>,
             ultra_framebuffer_attribute.fb = attribute_array_spec.fb spec \<rparr>
         \<in> snd ` set (attributes arr)"
proof -
  from assms(1) obtain address reserved w1 where
    "write_attribute_array k spec sp mem address reserved w1 = Inr ((arr, hi), w')"
    by (auto simp: build_attribute_array_def split: option.splits sum.splits)
  from write_attribute_array_records [OF this] assms(2)
  have "Framebuffer_info
           \<lparr> ultra_framebuffer_attribute.header =
               \<lparr> ultra_attribute_header.type = ULTRA_ATTRIBUTE_FRAMEBUFFER_INFO,
                 size_in_bytes = sizeof_ultra_framebuffer_attribute k \<rparr>,
             ultra_framebuffer_attribute.fb = attribute_array_spec.fb spec \<rparr>
         \<in> set (map snd (attributes arr))"
    by (elim conjE exE) (simp only: set_append, simp)
  then show ?thesis by simp
qed


subsection \<open>The attribute array in full\<close>

lemma module_records_upt:
  "n \<le> length mods \<Longrightarrow>
   module_records p sz (take n mods)
     = map (\<lambda>i. (p + of_nat i * sz, Module_info (mods ! i))) [0..<n]"
  by (auto simp: module_records_def enumerate_eq_zip intro!: nth_equalityI)

lemma cmdline_aligned_length_absent:
  "\<not> cmdline_present spec \<Longrightarrow> cmdline_aligned_length k spec = 0"
  by (simp add: cmdline_aligned_length_def)

lemma write_attribute_array_eq:
  "write_attribute_array k spec sp mem (ucast (p :: ptr_t)) reserved w1 =
     (if length (path_within_partition (path (bin_opts (kern_info spec)))) > sizeof_path_on_disk k - 1
      then Inl (Bug ''path_str.size'')
      else if unat (module_count spec) > length (modules_array spec)
      then Inl (Bug ''read past the end of the module array'')
      else
        case copy_map mem True reserved (sizeof_ultra_memory_map_entry k) (fw w1) of
          ((n, key, es), f) \<Rightarrow>
            Inr ((\<lparr> attribute_count =
                      2 + module_count spec + (if cmdline_present spec then 1 else 0)
                      + (if fb_present spec then 1 else 0) + 1,
                    attributes =
                      [(p + 8, Platform_info
                          \<lparr> ultra_platform_info_attribute.header =
                              \<lparr> ultra_attribute_header.type = ULTRA_ATTRIBUTE_PLATFORM_INFO,
                                size_in_bytes = sizeof_ultra_platform_info_attribute k \<rparr>,
                            platform_type = (if sp = SERVICE_PROVIDER_BIOS then ULTRA_PLATFORM_BIOS
                                             else ULTRA_PLATFORM_UEFI),
                            loader_major = 0,
                            loader_minor = 1,
                            ultra_platform_info_attribute.acpi_rsdp_address =
                              ucast (attribute_array_spec.acpi_rsdp_address spec),
                            loader_name = ''HyperLoader v0.1'' \<rparr>),
                       (p + 8 + sizeof_ultra_platform_info_attribute k, Kernel_info
                          \<lparr> ultra_kernel_info_attribute.header =
                              \<lparr> ultra_attribute_header.type = ULTRA_ATTRIBUTE_KERNEL_INFO,
                                size_in_bytes = sizeof_ultra_kernel_info_attribute k \<rparr>,
                            ultra_kernel_info_attribute.physical_base =
                              binary_info.physical_base (bin_info (kern_info spec)),
                            ultra_kernel_info_attribute.virtual_base =
                              binary_info.virtual_base (bin_info (kern_info spec)),
                            range_length = physical_ceiling (bin_info (kern_info spec))
                              - binary_info.physical_base (bin_info (kern_info spec)),
                            partition_type = partition_id_type (path (bin_opts (kern_info spec))),
                            ultra_kernel_info_attribute.partition_index =
                              full_path.partition_index (path (bin_opts (kern_info spec))),
                            ultra_kernel_info_attribute.disk_guid =
                              full_path.disk_guid (path (bin_opts (kern_info spec))),
                            ultra_kernel_info_attribute.partition_guid =
                              full_path.partition_guid (path (bin_opts (kern_info spec))),
                            path_on_disk = path_within_partition (path (bin_opts (kern_info spec))) \<rparr>)]
                      @ map (\<lambda>i. (p + 8 + sizeof_ultra_platform_info_attribute k
                                     + sizeof_ultra_kernel_info_attribute k
                                     + of_nat i * sizeof_ultra_module_info_attribute k,
                                   Module_info (modules_array spec ! i)))
                          [0..<unat (module_count spec)]
                      @ (if cmdline_present spec
                         then [(p + 8 + sizeof_ultra_platform_info_attribute k
                                  + sizeof_ultra_kernel_info_attribute k
                                  + module_count spec * sizeof_ultra_module_info_attribute k,
                                Command_line
                                  \<lparr> ultra_command_line_attribute.header =
                                      \<lparr> ultra_attribute_header.type = ULTRA_ATTRIBUTE_COMMAND_LINE,
                                        size_in_bytes = cmdline_aligned_length k spec \<rparr>,
                                    text' = cmdline spec \<rparr>)]
                         else [])
                      @ (if fb_present spec
                         then [(p + 8 + sizeof_ultra_platform_info_attribute k
                                  + sizeof_ultra_kernel_info_attribute k
                                  + module_count spec * sizeof_ultra_module_info_attribute k
                                  + cmdline_aligned_length k spec,
                                Framebuffer_info
                                  \<lparr> ultra_framebuffer_attribute.header =
                                      \<lparr> ultra_attribute_header.type = ULTRA_ATTRIBUTE_FRAMEBUFFER_INFO,
                                        size_in_bytes = sizeof_ultra_framebuffer_attribute k \<rparr>,
                                    ultra_framebuffer_attribute.fb = attribute_array_spec.fb spec \<rparr>)]
                         else [])
                      @ [(p + 8 + sizeof_ultra_platform_info_attribute k
                            + sizeof_ultra_kernel_info_attribute k
                            + module_count spec * sizeof_ultra_module_info_attribute k
                            + cmdline_aligned_length k spec
                            + (if fb_present spec then sizeof_ultra_framebuffer_attribute k else 0),
                          Memory_map
                            \<lparr> ultra_memory_map_attribute.header =
                                \<lparr> ultra_attribute_header.type = ULTRA_ATTRIBUTE_MEMORY_MAP,
                                  size_in_bytes = reserved * sizeof_ultra_memory_map_entry k
                                                  + sizeof_ultra_memory_map_attribute k \<rparr>,
                              entries = map (ultra_memory_map_entry_convert (memory_types k)) es \<rparr>)] \<rparr>,
                  \<lparr> memory_map_handover_key = key, attribute_array_address = ucast p \<rparr>),
                 record_event (Copy_map True reserved (sizeof_ultra_memory_map_entry k))
                   (w1\<lparr>fw := f\<rparr>)))"
  unfolding write_attribute_array_def create_kernel_info_attribute_def Let_def and_then_def
  by (simp add: ptr_via_u64 module_records_upt LOAD_NAME_STRING_def add.assoc
        cmdline_aligned_length_absent split: prod.splits)

lemma bytes_needed_sum:
  "bytes_needed k spec =
     8 + sizeof_ultra_platform_info_attribute k + sizeof_ultra_kernel_info_attribute k
     + module_count spec * sizeof_ultra_module_info_attribute k
     + cmdline_aligned_length k spec
     + (if fb_present spec then sizeof_ultra_framebuffer_attribute k else 0)"
  by (simp add: bytes_needed_def)

lemma trace_free_bytes: "trace (free_bytes env p n w) = trace w @ [Free_bytes p n]"
  by (simp add: free_bytes_def record_event_def)

lemma allocation_run_commit:
  assumes "allocation_run k env mem needed w res" and "res = Inr ((address, reserved), w')"
  shows "\<exists>p before.
           address = ucast p
         \<and> trace w' = trace w @ before
             @ [Allocate_critical_bytes (needed + reserved * sizeof_ultra_memory_map_entry k) p,
                Copy_map False 0 0,
                Memzero p (needed + reserved * sizeof_ultra_memory_map_entry k)]"
  using assms
proof (induction rule: allocation_run.induct)
  case (commit w n w1 reserved' bytes p w2 n' w3)
  then show ?case
    by (auto dest!: trace_allocate_critical_bytes trace_query_map_size)
next
  case (retry w n w1 reserved' bytes p w2 n' w3 res)
  from retry.IH [OF retry.prems] obtain q before where
    "address = ucast q"
    "trace w' = trace (free_bytes env p bytes w3) @ before
             @ [Allocate_critical_bytes (needed + reserved * sizeof_ultra_memory_map_entry k) q,
                Copy_map False 0 0,
                Memzero q (needed + reserved * sizeof_ultra_memory_map_entry k)]"
    by blast
  moreover from retry.hyps have "trace (free_bytes env p bytes w3)
      = trace w @ [Copy_map False 0 0, Allocate_critical_bytes bytes p, Copy_map False 0 0,
                   Free_bytes p bytes]"
    by (auto simp: trace_free_bytes dest!: trace_allocate_critical_bytes trace_query_map_size)
  ultimately show ?case by auto
next
  case (halt w n w1 reserved' bytes e)
  then show ?case by simp
qed

lemma build_attribute_array_steps:
  "build_attribute_array k env spec sp mem w = Some (Inr r)
   \<longleftrightarrow> (\<exists>(p :: ptr_t) reserved w1.
         allocation_run k env mem (bytes_needed k spec) w (Inr ((ucast p, reserved), w1))
       \<and> write_attribute_array k spec sp mem (ucast p) reserved w1 = Inr r)"
proof
  assume "build_attribute_array k env spec sp mem w = Some (Inr r)"
  then obtain address reserved w1 where
    a: "allocate_attribute_array k env mem (bytes_needed k spec) w
          = Some (Inr ((address, reserved), w1))"
    and b: "write_attribute_array k spec sp mem address reserved w1 = Inr r"
    by (auto simp: build_attribute_array_def split: option.splits sum.splits)
  from a have run: "allocation_run k env mem (bytes_needed k spec) w (Inr ((address, reserved), w1))"
    by (rule allocation_run_if_Some)
  from allocation_run_commit [OF this refl] obtain p :: ptr_t where "address = ucast p" by blast
  with run b show "\<exists>(p :: ptr_t) reserved w1.
         allocation_run k env mem (bytes_needed k spec) w (Inr ((ucast p, reserved), w1))
       \<and> write_attribute_array k spec sp mem (ucast p) reserved w1 = Inr r"
    by blast
next
  assume "\<exists>(p :: ptr_t) reserved w1.
         allocation_run k env mem (bytes_needed k spec) w (Inr ((ucast p, reserved), w1))
       \<and> write_attribute_array k spec sp mem (ucast p) reserved w1 = Inr r"
  then obtain p reserved w1 where
    run: "allocation_run k env mem (bytes_needed k spec) w (Inr ((ucast p :: u64, reserved), w1))"
    and b: "write_attribute_array k spec sp mem (ucast (p :: ptr_t)) reserved w1 = Inr r"
    by blast
  from Some_if_allocation_run [OF run] b
  show "build_attribute_array k env spec sp mem w = Some (Inr r)"
    by (simp add: build_attribute_array_def)
qed

lemma build_attribute_array_None:
  "build_attribute_array k env spec sp mem w = None
   \<longleftrightarrow> (\<forall>r. \<not> allocation_run k env mem (bytes_needed k spec) w r)"
proof (cases "allocate_attribute_array k env mem (bytes_needed k spec) w")
  case None
  have "\<not> allocation_run k env mem (bytes_needed k spec) w r" for r
  proof
    assume "allocation_run k env mem (bytes_needed k spec) w r"
    from Some_if_allocation_run [OF this] None show False by simp
  qed
  with None show ?thesis by (simp add: build_attribute_array_def)
next
  case (Some r)
  then have "allocation_run k env mem (bytes_needed k spec) w r"
    by (rule allocation_run_if_Some)
  moreover from Some have "build_attribute_array k env spec sp mem w \<noteq> None"
    by (simp add: build_attribute_array_def split: sum.splits prod.splits)
  ultimately show ?thesis by blast
qed





subsection \<open>The size of the allocation\<close>

lemma allocation_run_trace:
  assumes "allocation_run k env mem needed w res" and "res = Inr ((address, reserved), w')"
  shows "\<exists>p attempts.
           address = ucast p
         \<and> trace w' = trace w
             @ concat (map (\<lambda>(q, r).
                 [Copy_map False 0 0,
                  Allocate_critical_bytes (needed + r * sizeof_ultra_memory_map_entry k) q,
                  Copy_map False 0 0,
                  Free_bytes q (needed + r * sizeof_ultra_memory_map_entry k)]) attempts)
             @ [Copy_map False 0 0,
                Allocate_critical_bytes (needed + reserved * sizeof_ultra_memory_map_entry k) p,
                Copy_map False 0 0,
                Memzero p (needed + reserved * sizeof_ultra_memory_map_entry k)]"
  using assms
proof (induction rule: allocation_run.induct)
  case (commit w n w1 reserved' bytes p w2 n' w3)
  then have "address = ucast p \<and> trace w' = trace w
             @ concat (map (\<lambda>(q, r).
                 [Copy_map False 0 0,
                  Allocate_critical_bytes (needed + r * sizeof_ultra_memory_map_entry k) q,
                  Copy_map False 0 0,
                  Free_bytes q (needed + r * sizeof_ultra_memory_map_entry k)]) [])
             @ [Copy_map False 0 0,
                Allocate_critical_bytes (needed + reserved * sizeof_ultra_memory_map_entry k) p,
                Copy_map False 0 0,
                Memzero p (needed + reserved * sizeof_ultra_memory_map_entry k)]"
    by (auto dest!: trace_allocate_critical_bytes trace_query_map_size)
  then show ?case by blast
next
  case (retry w n w1 reserved' bytes p w2 n' w3 res)
  from retry.IH [OF retry.prems] obtain q attempts where
    "address = ucast q"
    "trace w' = trace (free_bytes env p bytes w3)
             @ concat (map (\<lambda>(q, r).
                 [Copy_map False 0 0,
                  Allocate_critical_bytes (needed + r * sizeof_ultra_memory_map_entry k) q,
                  Copy_map False 0 0,
                  Free_bytes q (needed + r * sizeof_ultra_memory_map_entry k)]) attempts)
             @ [Copy_map False 0 0,
                Allocate_critical_bytes (needed + reserved * sizeof_ultra_memory_map_entry k) q,
                Copy_map False 0 0,
                Memzero q (needed + reserved * sizeof_ultra_memory_map_entry k)]"
    by blast
  moreover from retry.hyps have "trace (free_bytes env p bytes w3)
      = trace w @ [Copy_map False 0 0,
                   Allocate_critical_bytes (needed + reserved' * sizeof_ultra_memory_map_entry k) p,
                   Copy_map False 0 0,
                   Free_bytes p (needed + reserved' * sizeof_ultra_memory_map_entry k)]"
    by (auto simp: trace_free_bytes dest!: trace_allocate_critical_bytes trace_query_map_size)
  ultimately have "address = ucast q \<and> trace w' = trace w
             @ concat (map (\<lambda>(q, r).
                 [Copy_map False 0 0,
                  Allocate_critical_bytes (needed + r * sizeof_ultra_memory_map_entry k) q,
                  Copy_map False 0 0,
                  Free_bytes q (needed + r * sizeof_ultra_memory_map_entry k)])
                 ((p, reserved') # attempts))
             @ [Copy_map False 0 0,
                Allocate_critical_bytes (needed + reserved * sizeof_ultra_memory_map_entry k) q,
                Copy_map False 0 0,
                Memzero q (needed + reserved * sizeof_ultra_memory_map_entry k)]"
    by simp
  then show ?case by blast
next
  case (halt w n w1 reserved' bytes e)
  then show ?case by simp
qed

text \<open>
  C1. \<^verbatim>\<open>build_attribute_array\<close> runs the allocation loop with the sum of lines 328 to 333
  as the static byte requirement: 8 bytes for the count, the PLATFORM_INFO and the
  KERNEL_INFO record, the records of the modules, the padded command line and the
  framebuffer record. It does not return if and only if the loop has no finite run, and
  it halts when the loop halts. When it returns an array, its calls are, in order: for
  each attempt that the growth of the memory map has defeated, the query of the entry
  count, the allocation of that sum plus the reserved entries times the stride, the
  second query, and the release of the same region; then, for the attempt that commits,
  the query, the allocation, the second query, and the clearing of the region allocated;
  then the snapshot of the memory map. The MEMORY_MAP record begins where the sum ends.
  Its header is not part of the sum: the record, whose size is the reserved entries times
  the stride plus the size of \<^verbatim>\<open>struct ultra_memory_map_attribute\<close>, ends that many bytes
  after the end of the allocation.
\<close>

theorem build_attribute_array_allocation:
  "(build_attribute_array k env spec sp mem w = None
      \<longleftrightarrow> (\<forall>r. \<not> allocation_run k env mem
            (8 + sizeof_ultra_platform_info_attribute k + sizeof_ultra_kernel_info_attribute k
             + module_count spec * sizeof_ultra_module_info_attribute k
             + cmdline_aligned_length k spec
             + (if fb_present spec then sizeof_ultra_framebuffer_attribute k else 0)) w r))
   \<and> (\<forall>e. allocation_run k env mem
            (8 + sizeof_ultra_platform_info_attribute k + sizeof_ultra_kernel_info_attribute k
             + module_count spec * sizeof_ultra_module_info_attribute k
             + cmdline_aligned_length k spec
             + (if fb_present spec then sizeof_ultra_framebuffer_attribute k else 0)) w (Inl e)
          \<longrightarrow> build_attribute_array k env spec sp mem w = Some (Inl e))
   \<and> (\<forall>arr hi w'.
        build_attribute_array k env spec sp mem w = Some (Inr ((arr, hi), w')) \<longrightarrow>
        (\<exists>(p :: ptr_t) reserved w1 attempts mm.
           allocation_run k env mem
            (8 + sizeof_ultra_platform_info_attribute k + sizeof_ultra_kernel_info_attribute k
             + module_count spec * sizeof_ultra_module_info_attribute k
             + cmdline_aligned_length k spec
             + (if fb_present spec then sizeof_ultra_framebuffer_attribute k else 0))
            w (Inr ((ucast p, reserved), w1))
         \<and> trace w' = trace w
             @ concat (map (\<lambda>(q, r).
                 [Copy_map False 0 0,
                  Allocate_critical_bytes
                    (8 + sizeof_ultra_platform_info_attribute k + sizeof_ultra_kernel_info_attribute k
                     + module_count spec * sizeof_ultra_module_info_attribute k
                     + cmdline_aligned_length k spec
                     + (if fb_present spec then sizeof_ultra_framebuffer_attribute k else 0)
                     + r * sizeof_ultra_memory_map_entry k) q,
                  Copy_map False 0 0,
                  Free_bytes q
                    (8 + sizeof_ultra_platform_info_attribute k + sizeof_ultra_kernel_info_attribute k
                     + module_count spec * sizeof_ultra_module_info_attribute k
                     + cmdline_aligned_length k spec
                     + (if fb_present spec then sizeof_ultra_framebuffer_attribute k else 0)
                     + r * sizeof_ultra_memory_map_entry k)]) attempts)
             @ [Copy_map False 0 0,
                Allocate_critical_bytes
                  (8 + sizeof_ultra_platform_info_attribute k + sizeof_ultra_kernel_info_attribute k
                   + module_count spec * sizeof_ultra_module_info_attribute k
                   + cmdline_aligned_length k spec
                   + (if fb_present spec then sizeof_ultra_framebuffer_attribute k else 0)
                   + reserved * sizeof_ultra_memory_map_entry k) p,
                Copy_map False 0 0,
                Memzero p
                  (8 + sizeof_ultra_platform_info_attribute k + sizeof_ultra_kernel_info_attribute k
                   + module_count spec * sizeof_ultra_module_info_attribute k
                   + cmdline_aligned_length k spec
                   + (if fb_present spec then sizeof_ultra_framebuffer_attribute k else 0)
                   + reserved * sizeof_ultra_memory_map_entry k),
                Copy_map True reserved (sizeof_ultra_memory_map_entry k)]
         \<and> attribute_array_address hi = ucast p
         \<and> last (attributes arr) =
             (p + (8 + sizeof_ultra_platform_info_attribute k + sizeof_ultra_kernel_info_attribute k
                   + module_count spec * sizeof_ultra_module_info_attribute k
                   + cmdline_aligned_length k spec
                   + (if fb_present spec then sizeof_ultra_framebuffer_attribute k else 0)),
              Memory_map mm)
         \<and> ultra_memory_map_attribute.header mm =
             \<lparr> ultra_attribute_header.type = ULTRA_ATTRIBUTE_MEMORY_MAP,
               size_in_bytes = reserved * sizeof_ultra_memory_map_entry k
                               + sizeof_ultra_memory_map_attribute k \<rparr>))"
  (is "?never \<and> ?halt \<and> ?commit")
proof (intro conjI allI impI)
  show "?never"
    unfolding bytes_needed_sum [symmetric] by (rule build_attribute_array_None)
next
  fix e
  assume "allocation_run k env mem
            (8 + sizeof_ultra_platform_info_attribute k + sizeof_ultra_kernel_info_attribute k
             + module_count spec * sizeof_ultra_module_info_attribute k
             + cmdline_aligned_length k spec
             + (if fb_present spec then sizeof_ultra_framebuffer_attribute k else 0)) w (Inl e)"
  then have "allocate_attribute_array k env mem (bytes_needed k spec) w = Some (Inl e)"
    unfolding bytes_needed_sum [symmetric] by (rule Some_if_allocation_run)
  then show "build_attribute_array k env spec sp mem w = Some (Inl e)"
    by (simp add: build_attribute_array_def)
next
  fix arr hi w'
  assume "build_attribute_array k env spec sp mem w = Some (Inr ((arr, hi), w'))"
  then obtain p :: ptr_t and reserved w1 where
    run: "allocation_run k env mem (bytes_needed k spec) w (Inr ((ucast p, reserved), w1))" and
    wr: "write_attribute_array k spec sp mem (ucast p) reserved w1 = Inr ((arr, hi), w')"
    unfolding build_attribute_array_steps by blast
  from allocation_run_trace [OF run refl] obtain q :: ptr_t and attempts where
    q: "(ucast p :: u64) = ucast q" and
    t: "trace w1 = trace w
          @ concat (map (\<lambda>(q, r).
              [Copy_map False 0 0,
               Allocate_critical_bytes
                 (bytes_needed k spec + r * sizeof_ultra_memory_map_entry k) q,
               Copy_map False 0 0,
               Free_bytes q (bytes_needed k spec + r * sizeof_ultra_memory_map_entry k)]) attempts)
          @ [Copy_map False 0 0,
             Allocate_critical_bytes
               (bytes_needed k spec + reserved * sizeof_ultra_memory_map_entry k) q,
             Copy_map False 0 0,
             Memzero q (bytes_needed k spec + reserved * sizeof_ultra_memory_map_entry k)]"
    by blast
  from q have "(ucast (ucast p :: u64) :: ptr_t) = ucast (ucast q :: u64)" by simp
  then have pq: "q = p" by (simp only: ptr_via_u64)
  from wr obtain n key es f where
    "copy_map mem True reserved (sizeof_ultra_memory_map_entry k) (fw w1) = ((n, key, es), f)"
    by (cases "copy_map mem True reserved (sizeof_ultra_memory_map_entry k) (fw w1)") auto
  with wr have
    "attribute_array_address hi = ucast p"
    "last (attributes arr) =
       (p + bytes_needed k spec,
        Memory_map
          \<lparr> ultra_memory_map_attribute.header =
              \<lparr> ultra_attribute_header.type = ULTRA_ATTRIBUTE_MEMORY_MAP,
                size_in_bytes = reserved * sizeof_ultra_memory_map_entry k
                                + sizeof_ultra_memory_map_attribute k \<rparr>,
            entries = map (ultra_memory_map_entry_convert (memory_types k)) es \<rparr>)"
    unfolding write_attribute_array_eq bytes_needed_sum
    by (auto split: if_splits simp: add.assoc)
  moreover from trace_write_attribute_array [OF wr] t pq have
    "trace w' = trace w
          @ concat (map (\<lambda>(q, r).
              [Copy_map False 0 0,
               Allocate_critical_bytes
                 (bytes_needed k spec + r * sizeof_ultra_memory_map_entry k) q,
               Copy_map False 0 0,
               Free_bytes q (bytes_needed k spec + r * sizeof_ultra_memory_map_entry k)]) attempts)
          @ [Copy_map False 0 0,
             Allocate_critical_bytes
               (bytes_needed k spec + reserved * sizeof_ultra_memory_map_entry k) p,
             Copy_map False 0 0,
             Memzero p (bytes_needed k spec + reserved * sizeof_ultra_memory_map_entry k),
             Copy_map True reserved (sizeof_ultra_memory_map_entry k)]"
    by simp
  ultimately show "\<exists>(p :: ptr_t) reserved w1 attempts mm.
           allocation_run k env mem
            (8 + sizeof_ultra_platform_info_attribute k + sizeof_ultra_kernel_info_attribute k
             + module_count spec * sizeof_ultra_module_info_attribute k
             + cmdline_aligned_length k spec
             + (if fb_present spec then sizeof_ultra_framebuffer_attribute k else 0))
            w (Inr ((ucast p, reserved), w1))
         \<and> trace w' = trace w
             @ concat (map (\<lambda>(q, r).
                 [Copy_map False 0 0,
                  Allocate_critical_bytes
                    (8 + sizeof_ultra_platform_info_attribute k + sizeof_ultra_kernel_info_attribute k
                     + module_count spec * sizeof_ultra_module_info_attribute k
                     + cmdline_aligned_length k spec
                     + (if fb_present spec then sizeof_ultra_framebuffer_attribute k else 0)
                     + r * sizeof_ultra_memory_map_entry k) q,
                  Copy_map False 0 0,
                  Free_bytes q
                    (8 + sizeof_ultra_platform_info_attribute k + sizeof_ultra_kernel_info_attribute k
                     + module_count spec * sizeof_ultra_module_info_attribute k
                     + cmdline_aligned_length k spec
                     + (if fb_present spec then sizeof_ultra_framebuffer_attribute k else 0)
                     + r * sizeof_ultra_memory_map_entry k)]) attempts)
             @ [Copy_map False 0 0,
                Allocate_critical_bytes
                  (8 + sizeof_ultra_platform_info_attribute k + sizeof_ultra_kernel_info_attribute k
                   + module_count spec * sizeof_ultra_module_info_attribute k
                   + cmdline_aligned_length k spec
                   + (if fb_present spec then sizeof_ultra_framebuffer_attribute k else 0)
                   + reserved * sizeof_ultra_memory_map_entry k) p,
                Copy_map False 0 0,
                Memzero p
                  (8 + sizeof_ultra_platform_info_attribute k + sizeof_ultra_kernel_info_attribute k
                   + module_count spec * sizeof_ultra_module_info_attribute k
                   + cmdline_aligned_length k spec
                   + (if fb_present spec then sizeof_ultra_framebuffer_attribute k else 0)
                   + reserved * sizeof_ultra_memory_map_entry k),
                Copy_map True reserved (sizeof_ultra_memory_map_entry k)]
         \<and> attribute_array_address hi = ucast p
         \<and> last (attributes arr) =
             (p + (8 + sizeof_ultra_platform_info_attribute k + sizeof_ultra_kernel_info_attribute k
                   + module_count spec * sizeof_ultra_module_info_attribute k
                   + cmdline_aligned_length k spec
                   + (if fb_present spec then sizeof_ultra_framebuffer_attribute k else 0)),
              Memory_map mm)
         \<and> ultra_memory_map_attribute.header mm =
             \<lparr> ultra_attribute_header.type = ULTRA_ATTRIBUTE_MEMORY_MAP,
               size_in_bytes = reserved * sizeof_ultra_memory_map_entry k
                               + sizeof_ultra_memory_map_attribute k \<rparr>"
    using run unfolding bytes_needed_sum [symmetric]
    by (intro exI conjI) (assumption | simp)+
qed

text \<open>
  The array of one module, the command line \<^verbatim>\<open>quiet\<close> and a framebuffer: the sum is 1288,
  one entry is reserved and 1312 bytes are allocated. The MEMORY_MAP record is at offset
  1288, its entries begin at 1296, and the one entry that \<^verbatim>\<open>copy_map\<close> stores ends at 1320.
\<close>

theorem build_attribute_array_allocation_witness:
  "\<exists>arr hi w' mm.
     build_attribute_array example_constants example_environment example_spec
       SERVICE_PROVIDER_BIOS (ms example_services) example_world = Some (Inr ((arr, hi), w'))
     \<and> trace w' =
         [Copy_map False 0 0, Allocate_critical_bytes 1312 0x100000, Copy_map False 0 0,
          Memzero 0x100000 1312, Copy_map True 1 24]
     \<and> attribute_array_address hi = 0x100000
     \<and> last (attributes arr) = (0x100000 + 1288, Memory_map mm)
     \<and> size_in_bytes (ultra_memory_map_attribute.header mm) = 24 + 8
     \<and> length (entries mm) = 1"
proof -
  have "\<exists>arr hi w' mm.
     build_attribute_array example_constants example_environment example_spec
       SERVICE_PROVIDER_BIOS (ms example_services) example_world = Some (Inr ((arr, hi), w'))
     \<and> trace w' =
         [Copy_map False 0 0, Allocate_critical_bytes 1312 0x100000, Copy_map False 0 0,
          Memzero 0x100000 1312, Copy_map True 1 24]
     \<and> attribute_array_address hi = 0x100000
     \<and> snd (last (attributes arr)) = Memory_map mm
     \<and> length (entries mm) = 1"
    by (simp add: loader_defs example_spec_def example_defs world_defs)
  then obtain arr hi w' mm0 where
    run: "build_attribute_array example_constants example_environment example_spec
       SERVICE_PROVIDER_BIOS (ms example_services) example_world = Some (Inr ((arr, hi), w'))" and
    t: "trace w' =
         [Copy_map False 0 0, Allocate_critical_bytes 1312 0x100000, Copy_map False 0 0,
          Memzero 0x100000 1312, Copy_map True 1 24]" and
    a: "attribute_array_address hi = 0x100000" and
    m0: "snd (last (attributes arr)) = Memory_map mm0" and
    l: "length (entries mm0) = 1"
    by blast
  have spec: "module_count example_spec = 1" "fb_present example_spec"
    "cmdline_aligned_length example_constants example_spec = 16"
    by (simp_all add: example_spec_def zero_spec_def example_constants_def
          cmdline_aligned_length_def)
  have sizes: "sizeof_ultra_platform_info_attribute example_constants = 56"
    "sizeof_ultra_kernel_info_attribute example_constants = 1080"
    "sizeof_ultra_module_info_attribute example_constants = 88"
    "sizeof_ultra_framebuffer_attribute example_constants = 40"
    "sizeof_ultra_memory_map_attribute example_constants = 8"
    "sizeof_ultra_memory_map_entry example_constants = 24"
    by (simp_all add: example_constants_def)
  from build_attribute_array_allocation [of example_constants example_environment example_spec SERVICE_PROVIDER_BIOS
             "ms example_services" example_world] run
  have "\<exists>(p :: ptr_t) reserved mm.
      last (trace w') = Copy_map True reserved 24
    \<and> attribute_array_address hi = ucast p
    \<and> last (attributes arr) = (p + 1288, Memory_map mm)
    \<and> ultra_memory_map_attribute.header mm =
             \<lparr> ultra_attribute_header.type = ULTRA_ATTRIBUTE_MEMORY_MAP,
               size_in_bytes = reserved * 24 + 8 \<rparr>"
    by (simp add: spec sizes) auto
  then obtain p :: ptr_t and reserved mm where
    t': "last (trace w') = Copy_map True reserved 24" and
    a': "attribute_array_address hi = ucast p" and
    m: "last (attributes arr) = (p + 1288, Memory_map mm)" and
    h: "ultra_memory_map_attribute.header mm =
             \<lparr> ultra_attribute_header.type = ULTRA_ATTRIBUTE_MEMORY_MAP,
               size_in_bytes = reserved * 24 + 8 \<rparr>"
    by auto
  from t t' have r: "reserved = 1" by simp
  from a a' have "(ucast (ucast p :: u64) :: ptr_t) = ucast (0x100000 :: u64)" by simp
  then have p: "p = 0x100000" by (simp only: ptr_via_u64) simp
  from m m0 have "mm0 = mm" by simp
  with run t a m h l r p show ?thesis by simp
qed


subsection \<open>A concrete run of the protocol\<close>

lemma example_run:
  "\<exists>arr spec hi w'.
     ultra_protocol_load example_constants example_environment modules_config hello_entry
        example_services example_world = Some (Inr ((arr, spec, hi), w'))
     \<and> map (\<lambda>a. case a of Module_info m \<Rightarrow> Some (ultra_module_info_attribute.name m) | _ \<Rightarrow> None)
          (map snd (attributes arr))
       = [None, None, Some [], Some [], None, None]
     \<and> bin_info (kern_info spec) = example_binary_info"
  by (simp add: loader_defs modules_config_def cfg_defs example_defs world_defs)


text \<open>
  C8. For the entry with the two modules \<^verbatim>\<open>{ name = "init"  path = "/init" }\<close> and
  \<^verbatim>\<open>"/mod"\<close>, \<^verbatim>\<open>ultra_protocol_load\<close> writes six records, the third and the fourth
  being the module records in source order; the name of both is empty, neither
  \<^verbatim>\<open>init\<close> nor \<^verbatim>\<open>unnamed_module1\<close>.
\<close>

theorem ultra_protocol_load_module_names_empty:
  "map_option (map_sum (\<lambda>e. e) (\<lambda>((arr, spec, hi), w).
      map (\<lambda>a. case a of Module_info m \<Rightarrow> Some (ultra_module_info_attribute.name m) | _ \<Rightarrow> None)
        (map snd (attributes arr))))
     (ultra_protocol_load example_constants example_environment modules_config hello_entry
        example_services example_world)
   = Some (Inr [None, None, Some [], Some [], None, None])"
  using example_run by auto


subsection \<open>The order of the handover\<close>

text \<open>
  C3. In every run of \<^verbatim>\<open>ultra_protocol_load\<close> that reaches the kernel, the events end
  with the memory-map snapshot that \<^verbatim>\<open>build_attribute_array\<close> takes as its last action,
  then the call of \<^verbatim>\<open>ms->handover\<close>, then the jump (\<^verbatim>\<open>kernel_handover32\<close> or
  \<^verbatim>\<open>kernel_handover64\<close>): nothing comes between the three, in particular no allocation
  and no release of memory; and all earlier events are preparatory, so that no snapshot,
  handover or jump comes before.
\<close>

theorem handover_ordering:
  assumes "ultra_protocol_load k env cfg le sv w = Some (Inr (r, w'))"
  shows "\<exists>before reserved key jump.
           trace w' = trace w @ before
             @ [Copy_map True reserved (sizeof_ultra_memory_map_entry k), Handover key, jump]
         \<and> (\<forall>e\<in>set before. preparatory e)
         \<and> is_jump jump"
proof -
  obtain arr spec' hi' where r: "r = (arr, spec', hi')" by (cases r)
  from assms r obtain spec pt hh w1 where
    p: "ultra_protocol_load_prepare k env cfg le sv w = Some (Inr ((spec, pt, hh), w1))" and
    h: "ultra_protocol_load_handover k env sv spec pt hh w1 = Some (Inr ((arr, spec', hi'), w'))"
    unfolding ultra_protocol_load_def
    by (auto split: option.splits sum.splits)
  from handover_steps [OF h] obtain spec_fb hi0 w2 jump where
    b: "build_attribute_array k env spec_fb (provider sv) (ms sv) w1 = Some (Inr ((arr, hi0), w2))" and
    t: "trace w' = trace w2 @ [Handover (memory_map_handover_key hi0), jump]" and
    j: "is_jump jump"
    by (auto split: if_splits)
  from trace_build_attribute_array [OF b] obtain w3 reserved where
    e2: "extends w1 w3" and
    t2: "trace w2 = trace w3 @ [Copy_map True reserved (sizeof_ultra_memory_map_entry k)]"
    by blast
  from extends_prepare [OF p] e2 have "extends w w3" by (rule extends_trans)
  then obtain before where "trace w3 = trace w @ before" and "\<forall>e\<in>set before. preparatory e"
    by (auto simp: extends_def)
  with t t2 j show ?thesis by auto
qed

theorem handover_ordering_witness:
  "\<exists>r w' before reserved key jump.
     ultra_protocol_load example_constants example_environment modules_config hello_entry
        example_services example_world = Some (Inr (r, w'))
     \<and> trace w' = trace example_world @ before @ [Copy_map True reserved 24, Handover key, jump]
     \<and> (\<forall>e\<in>set before. preparatory e)
     \<and> is_jump jump"
proof -
  from example_run obtain r w' where
    run: "ultra_protocol_load example_constants example_environment modules_config hello_entry
        example_services example_world = Some (Inr (r, w'))"
    by blast
  have "sizeof_ultra_memory_map_entry example_constants = 24"
    by (simp add: example_constants_def)
  with handover_ordering [OF run] run show ?thesis
    by (simp only:) blast
qed


subsection \<open>The page table\<close>

lemma ceil_nat:
  fixes x p :: nat
  assumes "0 < p" and "0 < x"
  shows "x \<le> (1 + (x - 1) div p) * p \<and> (1 + (x - 1) div p) * p < x + p"
proof -
  define q where "q = (x - 1) div p"
  have a: "q * p \<le> x - 1" unfolding q_def by simp
  have b: "x - 1 < p + q * p"
    unfolding q_def using dividend_less_div_times [OF assms(1), of "x - 1"] .
  have "x \<le> q * p + p" using b assms(2) by linarith
  moreover have "q * p + p < x + p" using a assms by linarith
  ultimately show ?thesis unfolding q_def [symmetric] by (simp add: algebra_simps)
qed

lemma unat_ucast_u64_size_t: "unat (ucast (y :: u64) :: size_t) = unat y mod 2 ^ 32"
  by (simp add: unsigned_ucast_eq take_bit_eq_mod)

lemma ceiling_divide_covers:
  fixes x :: size_t
  assumes "ps \<noteq> 0"
  shows "unat x \<le> unat (CEILING_DIVIDE x ps) * unat ps
         \<and> unat (CEILING_DIVIDE x ps) * unat ps < unat x + unat ps"
proof (cases "x = 0")
  case True
  with assms show ?thesis by (simp add: CEILING_DIVIDE_def unat_gt_0)
next
  case False
  have ps: "0 < unat ps" using assms by (simp add: unat_gt_0)
  have x: "0 < unat x" using False by (simp add: unat_gt_0)
  have s: "unat (x - 1) = unat x - 1" using False by (simp add: unat_minus_one)
  have d: "unat ((x - 1) div ps) = (unat x - 1) div unat ps" by (simp add: unat_div s)
  have "(unat x - 1) div unat ps \<le> unat x - 1" by (rule div_le_dividend)
  moreover have "unat x < 2 ^ 32" using unsigned_less [of x, where 'a=nat] by simp
  ultimately have "1 + (unat x - 1) div unat ps < 2 ^ 32" using x by linarith
  then have c: "unat (CEILING_DIVIDE x ps) = 1 + (unat x - 1) div unat ps"
    using False d by (simp add: CEILING_DIVIDE_def unat_word_ariths(1))
  show ?thesis
    unfolding c using ceil_nat [OF ps x] .
qed

lemma huge_page_count:
  fixes h :: u64 and total :: u64
  assumes "unat h dvd unat total" and "1 < unat h" and "unat total \<le> 2 ^ 32"
  shows "unat (ucast (total div h) :: size_t) * unat h = unat total"
proof -
  have "unat (total div h) = unat total div unat h" by (simp add: unat_div)
  moreover have "unat total div unat h < 2 ^ 32"
  proof (cases "unat total = 0")
    case True then show ?thesis by simp
  next
    case False
    with assms(2) have "unat total div unat h < unat total" by simp
    with assms(3) show ?thesis by simp
  qed
  ultimately have "unat (ucast (total div h) :: size_t) = unat total div unat h"
    by (simp add: unat_ucast_u64_size_t)
  with assms(1) show ?thesis by simp
qed

lemma four_gb: "unat (4 * ucast GB :: u64) = 2 ^ 32"
  by (simp add: GB_def MB_def KB_def)

lemma two_gb: "unat (2 * ucast GB :: u64) = 2 ^ 31"
  by (simp add: GB_def MB_def KB_def)


text \<open>
  C5, as amended. For every 64-bit \<^verbatim>\<open>binary_info\<close> for which \<^verbatim>\<open>build_page_table\<close>
  returns, it allocates and clears one root page and then makes three mappings: virtual 0
  to physical 0 and \<^verbatim>\<open>DIRECT_MAP_BASE\<close> to physical 0, each of 4 GiB / HUGE_PAGE_SIZE
  huge pages; and, when \<^verbatim>\<open>kernel_range_is_direct_map\<close> is false, \<^verbatim>\<open>virtual_base\<close> to
  \<^verbatim>\<open>physical_base\<close> with the number of 4 KiB pages that covers
  \<^verbatim>\<open>physical_ceiling - physical_base\<close> bytes, but when it is true,
  \<^verbatim>\<open>HIGHER_HALF_BASE\<close> to physical 0 with 2 GiB / HUGE_PAGE_SIZE huge pages. For a huge
  page size that divides 2 GiB the huge mappings span 4 GiB, 4 GiB and 2 GiB; the small
  pages span the length of the kernel rounded up to a page, for a kernel of less than
  4 GiB.
\<close>

theorem build_page_table_mappings:
  assumes "bitness bi = 64" and "build_page_table k env bi w = Inr (pt, w')"
  shows "(\<exists>root. pt = ucast root \<and>
           trace w' = trace w @
             [Allocate_critical_pages 1 root,
              Memzero root (PAGE_SIZE k),
              Map_critical_huge_pages 0 0 (ucast ((4 * ucast GB) div HUGE_PAGE_SIZE k)),
              Map_critical_huge_pages (DIRECT_MAP_BASE k) 0
                (ucast ((4 * ucast GB) div HUGE_PAGE_SIZE k)),
              if kernel_range_is_direct_map bi
              then Map_critical_huge_pages (HIGHER_HALF_BASE k) 0
                     (ucast ((2 * ucast GB) div HUGE_PAGE_SIZE k))
              else Map_critical_pages (binary_info.virtual_base bi) (binary_info.physical_base bi)
                     (CEILING_DIVIDE
                        (ucast (physical_ceiling bi - binary_info.physical_base bi))
                        (PAGE_SIZE k))])
         \<and> (unat (HUGE_PAGE_SIZE k) dvd 2 ^ 31 \<and> 1 < unat (HUGE_PAGE_SIZE k) \<longrightarrow>
              unat (ucast ((4 * ucast GB) div HUGE_PAGE_SIZE k) :: size_t) * unat (HUGE_PAGE_SIZE k)
                = 2 ^ 32
              \<and> unat (ucast ((2 * ucast GB) div HUGE_PAGE_SIZE k) :: size_t) * unat (HUGE_PAGE_SIZE k)
                = 2 ^ 31)
         \<and> (PAGE_SIZE k \<noteq> 0 \<and> unat (physical_ceiling bi - binary_info.physical_base bi) < 2 ^ 32
              \<longrightarrow>
              unat (physical_ceiling bi - binary_info.physical_base bi)
                \<le> unat (CEILING_DIVIDE
                           (ucast (physical_ceiling bi - binary_info.physical_base bi) :: size_t)
                           (PAGE_SIZE k)) * unat (PAGE_SIZE k)
              \<and> unat (CEILING_DIVIDE
                           (ucast (physical_ceiling bi - binary_info.physical_base bi) :: size_t)
                           (PAGE_SIZE k)) * unat (PAGE_SIZE k)
                < unat (physical_ceiling bi - binary_info.physical_base bi) + unat (PAGE_SIZE k))"
proof (intro conjI impI)
  show "\<exists>root. pt = ucast root \<and>
           trace w' = trace w @
             [Allocate_critical_pages 1 root,
              Memzero root (PAGE_SIZE k),
              Map_critical_huge_pages 0 0 (ucast ((4 * ucast GB) div HUGE_PAGE_SIZE k)),
              Map_critical_huge_pages (DIRECT_MAP_BASE k) 0
                (ucast ((4 * ucast GB) div HUGE_PAGE_SIZE k)),
              if kernel_range_is_direct_map bi
              then Map_critical_huge_pages (HIGHER_HALF_BASE k) 0
                     (ucast ((2 * ucast GB) div HUGE_PAGE_SIZE k))
              else Map_critical_pages (binary_info.virtual_base bi) (binary_info.physical_base bi)
                     (CEILING_DIVIDE
                        (ucast (physical_ceiling bi - binary_info.physical_base bi))
                        (PAGE_SIZE k))]"
    using trace_build_page_table [OF assms(2) assms(1)] .
next
  assume h: "unat (HUGE_PAGE_SIZE k) dvd 2 ^ 31 \<and> 1 < unat (HUGE_PAGE_SIZE k)"
  then have "unat (HUGE_PAGE_SIZE k) dvd 2 ^ 32"
    by (metis dvd_mult power_Suc numeral_nat(7) eval_nat_numeral(3) Suc_numeral semiring_norm(2,8))
  with h huge_page_count [of "HUGE_PAGE_SIZE k" "4 * ucast GB"]
  show "unat (ucast ((4 * ucast GB) div HUGE_PAGE_SIZE k) :: size_t) * unat (HUGE_PAGE_SIZE k) = 2 ^ 32"
    by (simp add: four_gb)
  from h huge_page_count [of "HUGE_PAGE_SIZE k" "2 * ucast GB"]
  show "unat (ucast ((2 * ucast GB) div HUGE_PAGE_SIZE k) :: size_t) * unat (HUGE_PAGE_SIZE k) = 2 ^ 31"
    by (simp add: two_gb)
next
  assume a: "PAGE_SIZE k \<noteq> 0 \<and> unat (physical_ceiling bi - binary_info.physical_base bi) < 2 ^ 32"
  then have u: "unat (ucast (physical_ceiling bi - binary_info.physical_base bi) :: size_t)
           = unat (physical_ceiling bi - binary_info.physical_base bi)"
    by (simp add: unat_ucast_u64_size_t)
  from a ceiling_divide_covers [of "PAGE_SIZE k"
        "ucast (physical_ceiling bi - binary_info.physical_base bi)"]
  show "unat (physical_ceiling bi - binary_info.physical_base bi)
                \<le> unat (CEILING_DIVIDE
                           (ucast (physical_ceiling bi - binary_info.physical_base bi) :: size_t)
                           (PAGE_SIZE k)) * unat (PAGE_SIZE k)"
   and "unat (CEILING_DIVIDE
                           (ucast (physical_ceiling bi - binary_info.physical_base bi) :: size_t)
                           (PAGE_SIZE k)) * unat (PAGE_SIZE k)
                < unat (physical_ceiling bi - binary_info.physical_base bi) + unat (PAGE_SIZE k)"
    unfolding u by simp_all
qed

theorem build_page_table_mappings_witness:
  "\<exists>pt w'. bitness (example_binary_info\<lparr>kernel_range_is_direct_map := False\<rparr>) = 64
     \<and> build_page_table example_constants example_environment
          (example_binary_info\<lparr>kernel_range_is_direct_map := False\<rparr>) example_world = Inr (pt, w')
     \<and> trace w' =
          [Allocate_critical_pages 1 0x100000, Memzero 0x100000 4096,
           Map_critical_huge_pages 0 0 2048,
           Map_critical_huge_pages 0xFFFF800000000000 0 2048,
           Map_critical_pages 0xFFFFFFFF80100000 0x100000 4]"
proof -
  have b: "bitness (example_binary_info\<lparr>kernel_range_is_direct_map := False\<rparr>) = 64"
    by (simp add: example_binary_info_def)
  have "\<exists>r. build_page_table example_constants example_environment
          (example_binary_info\<lparr>kernel_range_is_direct_map := False\<rparr>) example_world = Inr r"
    by (simp add: build_page_table_def example_defs world_defs)
  then obtain pt w' where
    r: "build_page_table example_constants example_environment
          (example_binary_info\<lparr>kernel_range_is_direct_map := False\<rparr>) example_world = Inr (pt, w')"
    by auto
  from build_page_table_mappings [OF b r] have "\<exists>root. trace w' =
          [Allocate_critical_pages 1 root, Memzero root 4096,
           Map_critical_huge_pages 0 0 2048,
           Map_critical_huge_pages 0xFFFF800000000000 0 2048,
           Map_critical_pages 0xFFFFFFFF80100000 0x100000 4]"
    by (auto simp: example_defs world_defs)
  moreover from r have "Allocate_critical_pages 1 0x100000 \<in> set (trace w')"
    by (auto simp: build_page_table_def example_defs world_defs)
  ultimately have "trace w' =
          [Allocate_critical_pages 1 0x100000, Memzero 0x100000 4096,
           Map_critical_huge_pages 0 0 2048,
           Map_critical_huge_pages 0xFFFF800000000000 0 2048,
           Map_critical_pages 0xFFFFFFFF80100000 0x100000 4]"
    by auto
  with b r show ?thesis by blast
qed


text \<open>
  The claim C5 as stated fails where \<^verbatim>\<open>kernel_range_is_direct_map\<close> is true: besides the
  identity map and the direct map the page table gets a third mapping, of 1024 huge pages
  at \<^verbatim>\<open>HIGHER_HALF_BASE\<close>.
\<close>

theorem build_page_table_direct_map_counterexample:
  "bitness example_binary_info = 64 \<and> kernel_range_is_direct_map example_binary_info
   \<and> map_sum (\<lambda>e. e) (\<lambda>(pt, w). filter is_mapping (trace w))
        (build_page_table example_constants example_environment example_binary_info example_world)
     = Inr [Map_critical_huge_pages 0 0 2048,
            Map_critical_huge_pages 0xFFFF800000000000 0 2048,
            Map_critical_huge_pages 0xFFFFFFFF80000000 0 1024]"
  by (simp add: build_page_table_def example_defs world_defs)


subsection \<open>The higher half\<close>

text \<open>
  C6. In every run of \<^verbatim>\<open>ultra_protocol_load\<close> that reaches the kernel, let \<open>spec\<close> be
  what the loader has prepared before line 546 (its stack address is the result of
  \<^verbatim>\<open>pick_stack\<close>, its framebuffer the one that \<^verbatim>\<open>set_video_mode\<close> stored) and \<open>hi\<close>
  what \<^verbatim>\<open>build_attribute_array\<close> returns. The kernel is higher-half exactly when its
  entry point is at least \<^verbatim>\<open>HIGHER_HALF_BASE\<close>. The framebuffer address in the attribute
  array, the stack address and the attribute-array address passed in the jump are the
  prepared values plus \<^verbatim>\<open>DIRECT_MAP_BASE\<close> if the kernel is higher-half, and the
  prepared values themselves if not (the 32-bit jump gets the attribute-array address
  cut to 32 bits). The array itself stays where it was allocated: \<open>hi\<close> holds the
  address \<open>p\<close> of the critical allocation, the region cleared is at \<open>p\<close>, and the first
  record is stored at \<open>p + 8\<close>.
\<close>

theorem higher_half_rebase:
  assumes "ultra_protocol_load k env cfg le sv w = Some (Inr ((arr, spec', hi'), w'))"
  shows "\<exists>spec pt hh w1 hi w2 w3 w4 p bytes.
           ultra_protocol_load_prepare k env cfg le sv w = Some (Inr ((spec, pt, hh), w1))
         \<and> hh = (entrypoint_address (bin_info (kern_info spec)) \<ge> HIGHER_HALF_BASE k)
         \<and> pick_stack k env cfg le w3 = Inr (stack_address spec, w4)
         \<and> (\<exists>fb0. set_video_mode cfg le (vs sv) fb0 w4
                     = Inr ((fb_present spec, attribute_array_spec.fb spec), w1))
         \<and> build_attribute_array k env
              (spec\<lparr> attribute_array_spec.fb := (attribute_array_spec.fb spec)
                        \<lparr> ultra_framebuffer.physical_address :=
                            ultra_framebuffer.physical_address (attribute_array_spec.fb spec)
                            + (if hh then DIRECT_MAP_BASE k else 0) \<rparr> \<rparr>)
              (provider sv) (ms sv) w1 = Some (Inr ((arr, hi), w2))
         \<and> (fb_present spec \<longrightarrow>
               Framebuffer_info
                 \<lparr> ultra_framebuffer_attribute.header =
                     \<lparr> ultra_attribute_header.type = ULTRA_ATTRIBUTE_FRAMEBUFFER_INFO,
                       size_in_bytes = sizeof_ultra_framebuffer_attribute k \<rparr>,
                   ultra_framebuffer_attribute.fb = (attribute_array_spec.fb spec)
                        \<lparr> ultra_framebuffer.physical_address :=
                            ultra_framebuffer.physical_address (attribute_array_spec.fb spec)
                            + (if hh then DIRECT_MAP_BASE k else 0) \<rparr> \<rparr>
               \<in> snd ` set (attributes arr))
         \<and> kern_info spec' = kern_info spec
         \<and> stack_address spec' = stack_address spec + (if hh then DIRECT_MAP_BASE k else 0)
         \<and> attribute_array_address hi'
             = attribute_array_address hi + (if hh then DIRECT_MAP_BASE k else 0)
         \<and> last (trace w') =
             (if bitness (bin_info (kern_info spec)) = 32
              then Kernel_handover32 (entrypoint_address (bin_info (kern_info spec)))
                     (stack_address spec + (if hh then DIRECT_MAP_BASE k else 0))
                     (ucast (attribute_array_address hi + (if hh then DIRECT_MAP_BASE k else 0)))
                     (ULTRA_MAGIC k)
              else Kernel_handover64 (entrypoint_address (bin_info (kern_info spec)))
                     (stack_address spec + (if hh then DIRECT_MAP_BASE k else 0)) pt
                     (attribute_array_address hi + (if hh then DIRECT_MAP_BASE k else 0))
                     (ULTRA_MAGIC k))
         \<and> attribute_array_address hi = ucast p
         \<and> Allocate_critical_bytes bytes p \<in> set (trace w')
         \<and> Memzero p bytes \<in> set (trace w')
         \<and> attributes arr \<noteq> [] \<and> fst (hd (attributes arr)) = p + 8"
proof -
  from assms obtain spec pt hh w1 where
    p: "ultra_protocol_load_prepare k env cfg le sv w = Some (Inr ((spec, pt, hh), w1))" and
    h: "ultra_protocol_load_handover k env sv spec pt hh w1 = Some (Inr ((arr, spec', hi'), w'))"
    unfolding ultra_protocol_load_def
    by (auto split: option.splits sum.splits)
  note hh = higher_half_prepare [OF p]
  from prepare_steps [OF p] obtain spec2 w2 where
    "ultra_protocol_load_machine k env cfg le sv spec2 w2 = Inr ((spec, pt), w1)"
    by blast
  from machine_steps [OF this] obtain w3 w4 where
    st: "pick_stack k env cfg le w3 = Inr (stack_address spec, w4)" and
    vm: "set_video_mode cfg le (vs sv) (attribute_array_spec.fb spec2) w4
             = Inr ((fb_present spec, attribute_array_spec.fb spec), w1)"
    by auto
  let ?d = "if hh then DIRECT_MAP_BASE k else 0"
  let ?spec = "spec\<lparr> attribute_array_spec.fb := (attribute_array_spec.fb spec)
                        \<lparr> ultra_framebuffer.physical_address :=
                            ultra_framebuffer.physical_address (attribute_array_spec.fb spec)
                            + ?d \<rparr> \<rparr>"
  from handover_steps [OF h] obtain hi w5 where
    b: "build_attribute_array k env ?spec (provider sv) (ms sv) w1 = Some (Inr ((arr, hi), w5))" and
    s: "stack_address spec' = stack_address spec + ?d" and
    a: "attribute_array_address hi' = attribute_array_address hi + ?d" and
    ki: "kern_info spec' = kern_info spec" and
    t: "trace w' = trace w5 @
             [Handover (memory_map_handover_key hi),
              if bitness (bin_info (kern_info spec)) = 32
              then Kernel_handover32 (entrypoint_address (bin_info (kern_info spec)))
                     (stack_address spec') (ucast (attribute_array_address hi')) (ULTRA_MAGIC k)
              else Kernel_handover64 (entrypoint_address (bin_info (kern_info spec)))
                     (stack_address spec') pt (attribute_array_address hi') (ULTRA_MAGIC k)]"
    by blast
  from build_attribute_array_placement [OF b] obtain p bytes before reserved where
    pl: "attribute_array_address hi = ucast p"
        "trace w5 = before @ [Allocate_critical_bytes bytes p, Copy_map False 0 0, Memzero p bytes,
                                 Copy_map True reserved (sizeof_ultra_memory_map_entry k)]"
        "attributes arr \<noteq> []" "fst (hd (attributes arr)) = p + 8"
    by blast
  have fbr: "fb_present spec \<longrightarrow>
               Framebuffer_info
                 \<lparr> ultra_framebuffer_attribute.header =
                     \<lparr> ultra_attribute_header.type = ULTRA_ATTRIBUTE_FRAMEBUFFER_INFO,
                       size_in_bytes = sizeof_ultra_framebuffer_attribute k \<rparr>,
                   ultra_framebuffer_attribute.fb = (attribute_array_spec.fb spec)
                        \<lparr> ultra_framebuffer.physical_address :=
                            ultra_framebuffer.physical_address (attribute_array_spec.fb spec)
                            + ?d \<rparr> \<rparr>
               \<in> snd ` set (attributes arr)"
    using build_attribute_array_framebuffer [OF b] by simp
  have l: "last (trace w') =
             (if bitness (bin_info (kern_info spec)) = 32
              then Kernel_handover32 (entrypoint_address (bin_info (kern_info spec)))
                     (stack_address spec + ?d)
                     (ucast (attribute_array_address hi + ?d))
                     (ULTRA_MAGIC k)
              else Kernel_handover64 (entrypoint_address (bin_info (kern_info spec)))
                     (stack_address spec + ?d) pt
                     (attribute_array_address hi + ?d)
                     (ULTRA_MAGIC k))"
    unfolding t s a by simp
  have ev: "Allocate_critical_bytes bytes p \<in> set (trace w')" "Memzero p bytes \<in> set (trace w')"
    unfolding t pl(2) by simp_all
  from p hh st vm b fbr ki s a l pl(1,3,4) ev show ?thesis
    by (intro exI [of _ spec] exI [of _ pt] exI [of _ hh] exI [of _ w1] exI [of _ hi]
              exI [of _ w5] exI [of _ w3] exI [of _ w4] exI [of _ p] exI [of _ bytes])
       (intro conjI exI [of _ "attribute_array_spec.fb spec2"]; assumption)
qed

theorem higher_half_rebase_witness:
  "\<exists>arr spec' hi' w' stack p pt.
     ultra_protocol_load example_constants example_environment modules_config hello_entry
        example_services example_world = Some (Inr ((arr, spec', hi'), w'))
     \<and> HIGHER_HALF_BASE example_constants \<le> entrypoint_address (bin_info (kern_info spec'))
     \<and> stack_address spec' = stack + 0xFFFF800000000000
     \<and> attribute_array_address hi' = ucast p + 0xFFFF800000000000
     \<and> fst (hd (attributes arr)) = p + 8
     \<and> last (trace w')
         = Kernel_handover64 0xFFFFFFFF80100000 (stack + 0xFFFF800000000000) pt
             (ucast p + 0xFFFF800000000000) 0x554C5442"
proof -
  from example_run obtain arr spec' hi' w' where
    run: "ultra_protocol_load example_constants example_environment modules_config hello_entry
        example_services example_world = Some (Inr ((arr, spec', hi'), w'))" and
    ki: "bin_info (kern_info spec') = example_binary_info"
    by blast
  have c: "HIGHER_HALF_BASE example_constants \<le> entrypoint_address example_binary_info"
    "DIRECT_MAP_BASE example_constants = 0xFFFF800000000000"
    "ULTRA_MAGIC example_constants = 0x554C5442"
    "entrypoint_address example_binary_info = 0xFFFFFFFF80100000"
    "bitness example_binary_info = 64"
    by (simp_all add: example_constants_def example_binary_info_def)
  from higher_half_rebase [OF run] show ?thesis
  proof (elim exE conjE)
    fix spec pt hh w1 hi w2 w3 w4 p bytes
    assume hh: "hh = (HIGHER_HALF_BASE example_constants
                        \<le> entrypoint_address (bin_info (kern_info spec)))"
      and k: "kern_info spec' = kern_info spec"
      and s: "stack_address spec' = stack_address spec
                + (if hh then DIRECT_MAP_BASE example_constants else 0)"
      and a: "attribute_array_address hi' = attribute_array_address hi
                + (if hh then DIRECT_MAP_BASE example_constants else 0)"
      and l: "last (trace w') =
             (if bitness (bin_info (kern_info spec)) = 32
              then Kernel_handover32 (entrypoint_address (bin_info (kern_info spec)))
                     (stack_address spec + (if hh then DIRECT_MAP_BASE example_constants else 0))
                     (ucast (attribute_array_address hi
                        + (if hh then DIRECT_MAP_BASE example_constants else 0)))
                     (ULTRA_MAGIC example_constants)
              else Kernel_handover64 (entrypoint_address (bin_info (kern_info spec)))
                     (stack_address spec + (if hh then DIRECT_MAP_BASE example_constants else 0)) pt
                     (attribute_array_address hi
                        + (if hh then DIRECT_MAP_BASE example_constants else 0))
                     (ULTRA_MAGIC example_constants))"
      and p: "attribute_array_address hi = ucast p"
      and f: "fst (hd (attributes arr)) = p + 8"
    from k ki have b: "bin_info (kern_info spec) = example_binary_info" by simp
    with hh c have "hh" by simp
    with s a l p b c have
       "stack_address spec' = stack_address spec + 0xFFFF800000000000"
       "attribute_array_address hi' = ucast p + 0xFFFF800000000000"
       "last (trace w')
         = Kernel_handover64 0xFFFFFFFF80100000 (stack_address spec + 0xFFFF800000000000) pt
             (ucast p + 0xFFFF800000000000) 0x554C5442"
      by simp_all
    with run ki c(1) f show ?thesis
      by (intro exI [of _ arr] exI [of _ spec'] exI [of _ hi'] exI [of _ w']
                exI [of _ "stack_address spec"] exI [of _ p] exI [of _ pt]) simp
  qed
qed

end
